theory Spec2Isabelle
  imports Complex_Main "HOL-Library.Sublist" "HOL-Library.AList"
    "HOL-Library.Product_Lexorder" "HOL-Library.Option_ord"
begin

section \<open>Python values and the library calls the two scripts make\<close>

text \<open>
  The loader (\<^verbatim>\<open>src/database/load_data.py\<close>) reads a pandas DataFrame and talks to a
  SQL store through pyodbc; the report generator (\<^verbatim>\<open>src/scripts/report_generator.py\<close>)
  queries the same schema and assembles a document. Every library call the two functions
  make is written out below as a total function whose error branch is the exception the
  call raises.

  A Python \<^verbatim>\<open>str\<close> is a \<^typ>\<open>string\<close>; a character is read as the code point of
  the same number (the Latin-1 range).
\<close>

datatype violation = DuplicateKey | OtherConstraint

text \<open>
  The exceptions that reach the handlers of the two scripts. pyodbc raises its
  \<^verbatim>\<open>IntegrityError\<close> for every integrity-constraint violation the store reports;
  the payload records which kind it was: \<open>DuplicateKey\<close> is the uniqueness violation on
  \<^verbatim>\<open>Submissions.submission_id\<close>, \<open>OtherConstraint\<close> any other constraint (foreign key,
  NOT NULL, CHECK). \<open>DatabaseError\<close> stands for the other pyodbc errors (connection
  loss, data errors, ...).
\<close>

datatype py_exn =
    IntegrityError violation
  | DatabaseError
  | KeyError string
  | ValueError
  | AttributeError
  | TypeError
  | OverflowError

text \<open>
  A cell of the DataFrame, as \<^verbatim>\<open>pd.read_csv\<close> without dtypes produces it: a missing or
  empty field is the float NaN, a text field a \<^verbatim>\<open>str\<close>, a field of a numeric column an
  integer or a float (a finite float is the rational number it denotes; \<open>InfV True\<close> is
  \<^verbatim>\<open>-inf\<close>), a field of a True/False column a boolean.
\<close>

datatype cell = NaN | Str string | IntV int | FloatV rat | InfV bool | BoolV bool

text \<open>
  A row of the DataFrame is indexed by column name, \<^verbatim>\<open>row['email']\<close>. The CSV header
  carries every column the loader reads (they are required columns of the input file), so
  each index operation yields a cell.
\<close>

type_synonym row = "string \<Rightarrow> cell"

definition notna :: "cell \<Rightarrow> bool" where
  "notna c = (c \<noteq> NaN)"

subsection \<open>str methods\<close>

definition py_isspace :: "char \<Rightarrow> bool" where
  "py_isspace c = ((of_char c :: int) \<in> {9, 10, 11, 12, 13, 28, 29, 30, 31, 32, 133, 160})"

text \<open>\<^verbatim>\<open>s.strip()\<close>: leading and trailing whitespace removed.\<close>

definition py_strip :: "string \<Rightarrow> string" where
  "py_strip s = rev (dropWhile py_isspace (rev (dropWhile py_isspace s)))"

text \<open>\<^verbatim>\<open>s.strip(chars)\<close>: leading and trailing characters of the set removed.\<close>

definition py_strip_chars :: "string \<Rightarrow> string \<Rightarrow> string" where
  "py_strip_chars chars s =
     rev (dropWhile (\<lambda>c. c \<in> set chars) (rev (dropWhile (\<lambda>c. c \<in> set chars) s)))"

text \<open>
  \<^verbatim>\<open>s.replace(old, new)\<close> for a non-empty \<open>old\<close>: every occurrence, found from the
  left without overlap, is replaced.
\<close>

function replace_from :: "string \<Rightarrow> string \<Rightarrow> string \<Rightarrow> string" where
  "replace_from old new [] = []"
| "replace_from old new (c # cs) =
     (if old \<noteq> [] \<and> prefix old (c # cs)
      then new @ replace_from old new (drop (length old) (c # cs))
      else c # replace_from old new cs)"
  by pat_completeness auto
termination
  by (relation "measure (\<lambda>(old, new, s). length s)") auto

text \<open>An empty \<open>old\<close> matches between all characters and at both ends.\<close>

definition py_replace :: "string \<Rightarrow> string \<Rightarrow> string \<Rightarrow> string" where
  "py_replace old new s =
     (if old = [] then new @ concat (map (\<lambda>c. c # new) s) else replace_from old new s)"

subsection \<open>int()\<close>

definition digit_val :: "char \<Rightarrow> int option" where
  "digit_val c =
     (let n = (of_char c :: int) in
      if 48 \<le> n \<and> n \<le> 57 then Some (n - 48)
      else if 97 \<le> n \<and> n \<le> 122 then Some (n - 87)
      else if 65 \<le> n \<and> n \<le> 90 then Some (n - 55)
      else None)"

text \<open>
  The digits of an integer literal in base \<open>b\<close>: at least one digit, single underscores
  between digits only. \<open>prev\<close> tells whether the character before was a digit.
\<close>

fun int_digits :: "int \<Rightarrow> int \<Rightarrow> bool \<Rightarrow> string \<Rightarrow> int option" where
  "int_digits b acc prev [] = (if prev then Some acc else None)"
| "int_digits b acc prev (c # cs) =
     (if c = CHR ''_'' then (if prev then int_digits b acc False cs else None)
      else (case digit_val c of
              None \<Rightarrow> None
            | Some d \<Rightarrow> if d < b then int_digits b (acc * b + d) True cs else None))"

text \<open>
  \<^verbatim>\<open>int(s, b)\<close> of a \<^verbatim>\<open>str\<close>: surrounding whitespace, an optional sign, for base 16
  an optional \<^verbatim>\<open>0x\<close> prefix (one underscore may follow it), then the digits. Anything
  else is a \<^verbatim>\<open>ValueError\<close>. (The limit newer interpreters put on the length of decimal
  literals, 4300 digits by default, is not part of the model.)
\<close>

definition int_of_str :: "int \<Rightarrow> string \<Rightarrow> py_exn + int" where
  "int_of_str b s =
     (let t = py_strip s;
          neg = (take 1 t = ''-'');
          u = (if take 1 t = ''-'' \<or> take 1 t = ''+'' then drop 1 t else t);
          v = (if b = 16 \<and> (take 2 u = ''0x'' \<or> take 2 u = ''0X'')
               then (if take 1 (drop 2 u) = ''_'' then drop 3 u else drop 2 u)
               else u)
      in case int_digits b 0 False v of
           None \<Rightarrow> Inl ValueError
         | Some n \<Rightarrow> Inr (if neg then - n else n))"

text \<open>
  \<^verbatim>\<open>int(x)\<close> of a cell: an integer is itself, a boolean 0 or 1, a finite float is
  truncated towards zero, an infinity raises \<^verbatim>\<open>OverflowError\<close>, NaN and malformed text
  raise \<^verbatim>\<open>ValueError\<close>.
\<close>

definition py_int :: "cell \<Rightarrow> py_exn + int" where
  "py_int c =
     (case c of
        NaN \<Rightarrow> Inl ValueError
      | Str s \<Rightarrow> int_of_str 10 s
      | IntV n \<Rightarrow> Inr n
      | FloatV q \<Rightarrow> Inr (if q < 0 then - \<lfloor>- q\<rfloor> else \<lfloor>q\<rfloor>)
      | InfV _ \<Rightarrow> Inl OverflowError
      | BoolV b \<Rightarrow> Inr (if b then 1 else 0))"

subsection \<open>uuid.UUID\<close>

text \<open>A UUID is its 128-bit integer value (\<^verbatim>\<open>UUID.int\<close>), which is what equality compares.\<close>

type_synonym uuid = int

text \<open>
  \<^verbatim>\<open>uuid.UUID(x)\<close> with one positional argument: the prefixes \<^verbatim>\<open>urn:\<close> and
  \<^verbatim>\<open>uuid:\<close>, surrounding braces and all hyphens are removed; what is left must be 32
  characters that \<^verbatim>\<open>int(_, 16)\<close> accepts. A cell that is not a \<^verbatim>\<open>str\<close> has no
  \<^verbatim>\<open>replace\<close> method.
\<close>

definition uuid_UUID :: "cell \<Rightarrow> py_exn + uuid" where
  "uuid_UUID c =
     (case c of
        Str s \<Rightarrow>
          (let hex = py_replace ''uuid:'' '''' (py_replace ''urn:'' '''' s);
               hex = py_replace ''-'' '''' (py_strip_chars ''{}'' hex)
           in if length hex \<noteq> 32 then Inl ValueError
              else (case int_of_str 16 hex of
                      Inl e \<Rightarrow> Inl e
                    | Inr n \<Rightarrow> if 0 \<le> n \<and> n < 2 ^ 128 then Inr n else Inl ValueError))
      | _ \<Rightarrow> Inl AttributeError)"

subsection \<open>datetime\<close>

text \<open>
  A \<^verbatim>\<open>datetime\<close> value. \<open>tzinfo\<close> is the UTC offset in microseconds of an aware
  value and \<open>None\<close> for a naive one.
\<close>

record datetime =
  year :: int
  month :: int
  day :: int
  hour :: int
  minute :: int
  second :: int
  microsecond :: int
  tzinfo :: "int option"

definition is_digit :: "char \<Rightarrow> bool" where
  "is_digit c = (48 \<le> (of_char c :: int) \<and> (of_char c :: int) \<le> 57)"

definition parse_digits :: "string \<Rightarrow> int option" where
  "parse_digits s =
     (if list_all is_digit s then Some (foldl (\<lambda>a c. a * 10 + (of_char c - 48)) 0 s) else None)"

definition parse_isoformat_date :: "string \<Rightarrow> (int \<times> int \<times> int) option" where
  "parse_isoformat_date s =
     (if length s = 10 \<and> s ! 4 = CHR ''-'' \<and> s ! 7 = CHR ''-''
      then (case (parse_digits (take 4 s), parse_digits (take 2 (drop 5 s)), parse_digits (drop 8 s)) of
              (Some y, Some m, Some d) \<Rightarrow> Some (y, m, d)
            | _ \<Rightarrow> None)
      else None)"

text \<open>\<^verbatim>\<open>HH[:MM[:SS[.fff[fff]]]]\<close>, the fraction scaled to microseconds.\<close>

definition parse_hh_mm_ss_ff :: "string \<Rightarrow> (int \<times> int \<times> int \<times> int) option" where
  "parse_hh_mm_ss_ff s =
     (let n = length s;
          hh = parse_digits (take 2 s);
          mm = parse_digits (take 2 (drop 3 s));
          ss = parse_digits (take 2 (drop 6 s));
          ff = parse_digits (drop 9 s)
      in if n = 2 then (case hh of Some h \<Rightarrow> Some (h, 0, 0, 0) | None \<Rightarrow> None)
         else if n = 5 \<and> s ! 2 = CHR '':''
           then (case (hh, mm) of (Some h, Some m) \<Rightarrow> Some (h, m, 0, 0) | _ \<Rightarrow> None)
         else if n = 8 \<and> s ! 2 = CHR '':'' \<and> s ! 5 = CHR '':''
           then (case (hh, mm, ss) of (Some h, Some m, Some sec) \<Rightarrow> Some (h, m, sec, 0) | _ \<Rightarrow> None)
         else if (n = 12 \<or> n = 15) \<and> s ! 2 = CHR '':'' \<and> s ! 5 = CHR '':'' \<and> s ! 8 = CHR ''.''
           then (case (hh, mm, ss, ff) of
                   (Some h, Some m, Some sec, Some f) \<Rightarrow>
                     Some (h, m, sec, if n = 12 then f * 1000 else f)
                 | _ \<Rightarrow> None)
         else None)"

definition is_leap :: "int \<Rightarrow> bool" where
  "is_leap y = (y mod 4 = 0 \<and> (y mod 100 \<noteq> 0 \<or> y mod 400 = 0))"

definition days_in_month :: "int \<Rightarrow> int \<Rightarrow> int" where
  "days_in_month y m =
     (if m = 2 then (if is_leap y then 29 else 28)
      else if m = 4 \<or> m = 6 \<or> m = 9 \<or> m = 11 then 30 else 31)"

text \<open>
  The UTC offset \<^verbatim>\<open>+HH:MM[:SS[.ffffff]]\<close> (or with \<^verbatim>\<open>-\<close>) in microseconds; an
  empty string is no offset.
\<close>

definition parse_tz :: "string \<Rightarrow> int option option" where
  "parse_tz tz =
     (if tz = [] then Some None
      else if length tz = 6 \<or> length tz = 9 \<or> length tz = 16
        then (case parse_hh_mm_ss_ff (tl tz) of
                None \<Rightarrow> None
              | Some (h, m, sec, us) \<Rightarrow>
                  Some (Some ((if hd tz = CHR ''-'' then - 1 else 1)
                              * ((h * 3600 + m * 60 + sec) * 1000000 + us))))
      else None)"

text \<open>
  \<^verbatim>\<open>datetime.fromisoformat\<close>, for the format it is documented with (Python 3.7 to
  3.10; later versions read these strings the same way and accept some more):
  \<^verbatim>\<open>YYYY-MM-DD[*HH[:MM[:SS[.fff[fff]]]][+HH:MM[:SS[.ffffff]]]]\<close>, where \<^verbatim>\<open>*\<close> is any one
  character. The time ends at the first sign character. A string with an offset gives an
  aware value, a string that does not fit or names no calendar date or clock time a
  \<^verbatim>\<open>ValueError\<close>.
\<close>

definition fromisoformat :: "string \<Rightarrow> py_exn + datetime" where
  "fromisoformat s =
     (let is_sign = (\<lambda>c. c = CHR ''+'' \<or> c = CHR ''-'');
          rest = drop 11 s;
          time = (if length s = 10 then Some (0, 0, 0, 0)
                  else parse_hh_mm_ss_ff (takeWhile (\<lambda>c. \<not> is_sign c) rest));
          tz = parse_tz (dropWhile (\<lambda>c. \<not> is_sign c) rest)
      in case (parse_isoformat_date (take 10 s), time, tz) of
           (Some (y, m, d), Some (hh, mi, ss, us), Some off) \<Rightarrow>
             if 1 \<le> y \<and> 1 \<le> m \<and> m \<le> 12 \<and> 1 \<le> d \<and> d \<le> days_in_month y m
                \<and> hh \<le> 23 \<and> mi \<le> 59 \<and> ss \<le> 59
                \<and> (case off of None \<Rightarrow> True | Some x \<Rightarrow> \<bar>x\<bar> < 86400 * 1000000)
             then Inr \<lparr>year = y, month = m, day = d, hour = hh, minute = mi, second = ss,
                       microsecond = us, tzinfo = off\<rparr>
             else Inl ValueError
         | _ \<Rightarrow> Inl ValueError)"

section \<open>The store, as the loader sees it through pyodbc\<close>

text \<open>
  The tables are named as in the SQL of the two scripts. A row of \<open>Submissions\<close> holds
  the eight parameters of the loader's INSERT in their order: submission_id, created_at,
  age_range_id, region_id, instability_ratio, first_name, last_name, email (the last four
  are the cell itself, or \<open>None\<close> for SQL NULL). A row of \<open>SubmissionScores\<close> is
  (submission_id, indicator_id, score_value), a row of \<open>ReportRequests\<close> is
  (submission_id, status), a row of a lookup table is (surrogate key, label).
\<close>

type_synonym submission =
  "uuid \<times> datetime \<times> int option \<times> int option \<times> cell option \<times> cell option \<times> cell option \<times> cell option"

record database =
  AgeRanges :: "(int \<times> string) list"
  Regions :: "(int \<times> string) list"
  Indicators :: "(int \<times> string) list"
  Submissions :: "submission list"
  SubmissionScores :: "(uuid \<times> int \<times> int) list"
  ReportRequests :: "(uuid \<times> string) list"

text \<open>
  The statements \<^verbatim>\<open>load_survey_data\<close> sends, with their parameters; \<open>Commit\<close> is
  \<^verbatim>\<open>conn.commit()\<close>.
\<close>

datatype statement =
    SelectAgeRanges
  | SelectRegions
  | SelectIndicators
  | InsertSubmission uuid datetime "int option" "int option"
      "cell option" "cell option" "cell option" "cell option"
  | InsertSubmissionScore uuid int int
  | InsertReportRequest uuid
  | Commit

text \<open>
  Whether the store refuses a statement, and with which exception, is decided by its
  schema (the DDL is not among the source files) and by its environment (the connection
  can be lost at any statement). Both are a parameter of the loader: \<open>raises db stmt\<close> is
  the exception pyodbc raises for \<open>stmt\<close> when the transaction sees the state \<open>db\<close>, or
  \<open>None\<close> when the statement is carried out.
\<close>

type_synonym faults = "database \<Rightarrow> statement \<Rightarrow> py_exn option"

text \<open>What a statement that is carried out does to the tables.\<close>

fun apply_statement :: "statement \<Rightarrow> database \<Rightarrow> database" where
  "apply_statement (InsertSubmission sid ts ar rg ratio fname lname email) db =
     db\<lparr>Submissions := Submissions db @ [(sid, ts, ar, rg, ratio, fname, lname, email)]\<rparr>"
| "apply_statement (InsertSubmissionScore sid ind v) db =
     db\<lparr>SubmissionScores := SubmissionScores db @ [(sid, ind, v)]\<rparr>"
| "apply_statement (InsertReportRequest sid) db =
     db\<lparr>ReportRequests := ReportRequests db @ [(sid, ''completed'')]\<rparr>"
| "apply_statement _ db = db"

text \<open>\<^verbatim>\<open>cursor.execute\<close>: a refused statement raises and leaves the tables as they were.\<close>

definition execute :: "faults \<Rightarrow> statement \<Rightarrow> database \<Rightarrow> py_exn + database" where
  "execute raises stmt db =
     (case raises db stmt of Some e \<Rightarrow> Inl e | None \<Rightarrow> Inr (apply_statement stmt db))"

text \<open>\<^verbatim>\<open>cursor.fetchall()\<close> after one of the three lookup queries.\<close>

fun fetchall :: "statement \<Rightarrow> database \<Rightarrow> (int \<times> string) list" where
  "fetchall SelectAgeRanges db = AgeRanges db"
| "fetchall SelectRegions db = Regions db"
| "fetchall SelectIndicators db = Indicators db"
| "fetchall _ db = []"

text \<open>
  Modelled from the spec: the schema of the store, which the source files do not contain.
  The one constraint the specification gives is that a submission ID is unique; a
  duplicate is refused with an integrity error and nothing else is refused.
\<close>

definition unique_submission_id :: faults where
  "unique_submission_id db stmt =
     (case stmt of
        InsertSubmission sid _ _ _ _ _ _ _ \<Rightarrow>
          if sid \<in> fst ` set (Submissions db) then Some (IntegrityError DuplicateKey) else None
      | _ \<Rightarrow> None)"

text \<open>
  A store that, on top of the uniqueness of the ID, refuses the submission \<open>bad\<close> with
  the exception \<open>e\<close>: a constraint of the schema that this submission violates when \<open>e\<close>
  is an integrity error, a failure of the connection otherwise.
\<close>

definition refusing :: "uuid \<Rightarrow> py_exn \<Rightarrow> faults" where
  "refusing bad e db stmt =
     (case stmt of
        InsertSubmission sid _ _ _ _ _ _ _ \<Rightarrow>
          if sid = bad then Some e else unique_submission_id db stmt
      | _ \<Rightarrow> None)"

section \<open>The loader: load\_survey\_data\<close>

datatype message =
    ReadingCsv
  | Found int
  | Connecting
  | LoadingLookups
  | AgeRangesMsg
  | RegionsMsg
  | IndicatorsMsg
  | ProcessingSubmissions
  | Processed int
  | LoadingCompleted
  | SubmissionsLoaded int
  | ScoresLoaded int
  | Error py_exn

text \<open>What the run does that is visible from outside, in order.\<close>

datatype event = Print message | Committed | RolledBack | Closed

text \<open>
  The state of a run. pyodbc opens the connection with autocommit off: statements change
  \<open>pending\<close>, the state the open transaction sees; \<^verbatim>\<open>conn.commit()\<close> makes it
  \<open>durable\<close>, \<^verbatim>\<open>conn.rollback()\<close> discards it.
\<close>

record loader_state =
  durable :: database
  pending :: database
  submissions_loaded :: int
  scores_loaded :: int
  trace :: "event list"

text \<open>
  How an iteration (or the whole \<^verbatim>\<open>try\<close> block) ends: normally, or with an exception
  on its way to the handler at the end of \<^verbatim>\<open>load_survey_data\<close>.
\<close>

datatype flow = Next loader_state | Raised py_exn loader_state

definition print :: "message \<Rightarrow> loader_state \<Rightarrow> loader_state" where
  "print m s = s\<lparr>trace := trace s @ [Print m]\<rparr>"

text \<open>Lines 81 and 82: the progress indicator, every fifty rows.\<close>

definition progress :: "int \<Rightarrow> loader_state \<Rightarrow> loader_state" where
  "progress index s = (if index mod 50 = 0 then print (Processed index) s else s)"

text \<open>The dict comprehension over the fetched rows: a later row overrides an earlier label.\<close>

definition dict_by_label :: "(int \<times> string) list \<Rightarrow> (string \<rightharpoonup> int)" where
  "dict_by_label rows = map_of (rev (map (\<lambda>(k, label). (label, k)) rows))"

text \<open>\<^verbatim>\<open>d.get(x)\<close> on a dict whose keys are labels: a cell that is not a \<^verbatim>\<open>str\<close> equals no key.\<close>

definition dict_get :: "(string \<rightharpoonup> int) \<Rightarrow> cell \<Rightarrow> int option" where
  "dict_get d c = (case c of Str label \<Rightarrow> d label | _ \<Rightarrow> None)"

text \<open>\<^verbatim>\<open>d.get(row[col]) if pd.notna(row[col]) else None\<close> (lines 97 and 98).\<close>

definition lookup_label :: "(string \<rightharpoonup> int) \<Rightarrow> cell \<Rightarrow> int option" where
  "lookup_label d c = (if notna c then dict_get d c else None)"

text \<open>\<^verbatim>\<open>row[col] if pd.notna(row[col]) else None\<close> (lines 109 to 112).\<close>

definition optional :: "cell \<Rightarrow> cell option" where
  "optional c = (if notna c then Some c else None)"

text \<open>
  Line 93: \<^verbatim>\<open>datetime.fromisoformat(row['created_at'].replace('+00:00', ''))\<close>. Only a
  \<^verbatim>\<open>str\<close> has the method \<^verbatim>\<open>replace\<close>.
\<close>

definition parse_created_at :: "cell \<Rightarrow> py_exn + datetime" where
  "parse_created_at c =
     (case c of
        Str s \<Rightarrow> fromisoformat (py_replace ''+00:00'' '''' s)
      | _ \<Rightarrow> Inl AttributeError)"

definition indicator_mapping :: "(string \<times> string) list" where
  "indicator_mapping =
     [(''economic_management_rate'', ''Economic Management''),
      (''immigration_policy_rate'', ''Immigration Policy''),
      (''foreign_policy_rate'', ''Foreign Policy''),
      (''domestic_policy_rate'', ''Domestic Policy''),
      (''social_policy_rate'', ''Social Policy'')]"

text \<open>
  The loop of lines 132 to 138 over the items of the mapping. The arguments of
  \<^verbatim>\<open>cursor.execute\<close> are evaluated from the left: the subscript
  \<^verbatim>\<open>indicators[indicator_name]\<close> raises \<^verbatim>\<open>KeyError\<close> before \<^verbatim>\<open>int\<close> is called and
  before anything is sent.
\<close>

fun insert_scores ::
  "faults \<Rightarrow> (string \<rightharpoonup> int) \<Rightarrow> uuid \<Rightarrow> row \<Rightarrow> (string \<times> string) list \<Rightarrow> loader_state \<Rightarrow> flow"
where
  "insert_scores raises indicators submission_id row [] s = Next s"
| "insert_scores raises indicators submission_id row ((csv_col, indicator_name) # items) s =
     (if notna (row csv_col) then
        (case indicators indicator_name of
           None \<Rightarrow> Raised (KeyError indicator_name) s
         | Some indicator_id \<Rightarrow>
             (case py_int (row csv_col) of
                Inl e \<Rightarrow> Raised e s
              | Inr score \<Rightarrow>
                  (case execute raises (InsertSubmissionScore submission_id indicator_id score)
                          (pending s) of
                     Inl e \<Rightarrow> Raised e s
                   | Inr db \<Rightarrow>
                       insert_scores raises indicators submission_id row items
                         (s\<lparr>pending := db, scores_loaded := scores_loaded s + 1\<rparr>))))
      else insert_scores raises indicators submission_id row items s)"

text \<open>
  Lines 142 to 146: \<^verbatim>\<open>pd.notna(row['email']) and row['email'].strip()\<close>. A cell that is
  not NaN and not a \<^verbatim>\<open>str\<close> has no method \<^verbatim>\<open>strip\<close>.
\<close>

definition insert_report_request :: "faults \<Rightarrow> uuid \<Rightarrow> row \<Rightarrow> loader_state \<Rightarrow> flow" where
  "insert_report_request raises submission_id row s =
     (case row ''email'' of
        NaN \<Rightarrow> Next s
      | Str email \<Rightarrow>
          if py_strip email \<noteq> [] then
            (case execute raises (InsertReportRequest submission_id) (pending s) of
               Inl e \<Rightarrow> Raised e s
             | Inr db \<Rightarrow> Next (s\<lparr>pending := db\<rparr>))
          else Next s
      | _ \<Rightarrow> Raised AttributeError s)"

text \<open>
  Lines 97 to 112: the two lenient lookups and the INSERT into \<open>Submissions\<close> with its
  eight parameters.
\<close>

definition submission_insert ::
  "(string \<rightharpoonup> int) \<Rightarrow> (string \<rightharpoonup> int) \<Rightarrow> uuid \<Rightarrow> datetime \<Rightarrow> row \<Rightarrow> statement"
where
  "submission_insert age_ranges regions submission_id created_at row =
     (let age_range_id = lookup_label age_ranges (row ''age_range'');
          region_id = lookup_label regions (row ''region'')
      in InsertSubmission submission_id created_at age_range_id region_id
           (optional (row ''instability_ratio''))
           (optional (row ''first_name''))
           (optional (row ''last_name''))
           (optional (row ''email'')))"

text \<open>
  One iteration of the loop over \<^verbatim>\<open>df.iterrows()\<close> (lines 80 to 146). \<^verbatim>\<open>continue\<close>
  is \<open>Next\<close> with the state reached so far. The handler of line 115 catches
  \<^verbatim>\<open>pyodbc.IntegrityError\<close>, whatever the violation; every other exception leaves the
  loop.
\<close>

definition process_row ::
  "faults \<Rightarrow> (string \<rightharpoonup> int) \<Rightarrow> (string \<rightharpoonup> int) \<Rightarrow> (string \<rightharpoonup> int) \<Rightarrow> int \<Rightarrow> row \<Rightarrow> loader_state \<Rightarrow> flow"
where
  "process_row raises age_ranges regions indicators index row s0 =
     (let s = progress index s0 in
      case uuid_UUID (row ''id'') of
        Inl _ \<Rightarrow> Next s
      | Inr submission_id \<Rightarrow>
          (case parse_created_at (row ''created_at'') of
             Inl e \<Rightarrow> Raised e s
           | Inr created_at \<Rightarrow>
               (case execute raises
                       (submission_insert age_ranges regions submission_id created_at row)
                       (pending s) of
                  Inl (IntegrityError _) \<Rightarrow> Next s
                | Inl e \<Rightarrow> Raised e s
                | Inr db \<Rightarrow>
                    (case insert_scores raises indicators submission_id row indicator_mapping
                            (s\<lparr>pending := db, submissions_loaded := submissions_loaded s + 1\<rparr>) of
                       Raised e s' \<Rightarrow> Raised e s'
                     | Next s' \<Rightarrow> insert_report_request raises submission_id row s'))))"

text \<open>The loop; \<open>index\<close> is the position of the row in the DataFrame.\<close>

fun process_rows ::
  "faults \<Rightarrow> (string \<rightharpoonup> int) \<Rightarrow> (string \<rightharpoonup> int) \<Rightarrow> (string \<rightharpoonup> int) \<Rightarrow> int \<Rightarrow> row list \<Rightarrow> loader_state \<Rightarrow> flow"
where
  "process_rows raises age_ranges regions indicators index [] s = Next s"
| "process_rows raises age_ranges regions indicators index (row # rows) s =
     (case process_row raises age_ranges regions indicators index row s of
        Raised e s' \<Rightarrow> Raised e s'
      | Next s' \<Rightarrow> process_rows raises age_ranges regions indicators (index + 1) rows s')"

text \<open>One of the three lookup queries (lines 60 to 70), with the print that follows it.\<close>

definition load_lookup ::
  "faults \<Rightarrow> statement \<Rightarrow> message \<Rightarrow> loader_state \<Rightarrow> py_exn + (string \<rightharpoonup> int) \<times> loader_state"
where
  "load_lookup raises query m s =
     (case execute raises query (pending s) of
        Inl e \<Rightarrow> Inl e
      | Inr db \<Rightarrow> Inr (dict_by_label (fetchall query db), print m (s\<lparr>pending := db\<rparr>)))"

text \<open>
  Lines 56 to 146: the lookup caches are loaded, the counters set to zero, and the rows
  processed in order.
\<close>

definition load_and_process :: "faults \<Rightarrow> row list \<Rightarrow> loader_state \<Rightarrow> flow" where
  "load_and_process raises df s0 =
     (let s1 = print LoadingLookups s0 in
      case load_lookup raises SelectAgeRanges AgeRangesMsg s1 of
        Inl e \<Rightarrow> Raised e s1
      | Inr (age_ranges, s2) \<Rightarrow>
          (case load_lookup raises SelectRegions RegionsMsg s2 of
             Inl e \<Rightarrow> Raised e s2
           | Inr (regions, s3) \<Rightarrow>
               (case load_lookup raises SelectIndicators IndicatorsMsg s3 of
                  Inl e \<Rightarrow> Raised e s3
                | Inr (indicators, s4) \<Rightarrow>
                    process_rows raises age_ranges regions indicators 0 df
                      (print ProcessingSubmissions
                         (s4\<lparr>submissions_loaded := 0, scores_loaded := 0\<rparr>)))))"

text \<open>Line 149: \<^verbatim>\<open>conn.commit()\<close>.\<close>

definition commit :: "faults \<Rightarrow> loader_state \<Rightarrow> flow" where
  "commit raises s =
     (case raises (pending s) Commit of
        Some e \<Rightarrow> Raised e s
      | None \<Rightarrow> Next (s\<lparr>durable := pending s, trace := trace s @ [Committed]\<rparr>))"

text \<open>Lines 154 to 157: \<^verbatim>\<open>conn.rollback()\<close> and the report of the error.\<close>

definition rollback :: "py_exn \<Rightarrow> loader_state \<Rightarrow> loader_state" where
  "rollback e s = print (Error e) (s\<lparr>pending := durable s, trace := trace s @ [RolledBack]\<rparr>)"

text \<open>The body of the \<^verbatim>\<open>try\<close> statement (lines 56 to 152).\<close>

definition try_body :: "faults \<Rightarrow> row list \<Rightarrow> loader_state \<Rightarrow> flow" where
  "try_body raises df s0 =
     (case load_and_process raises df s0 of
        Raised e s \<Rightarrow> Raised e s
      | Next s \<Rightarrow>
          (case commit raises s of
             Raised e s' \<Rightarrow> Raised e s'
           | Next s' \<Rightarrow>
               Next (print (ScoresLoaded (scores_loaded s'))
                      (print (SubmissionsLoaded (submissions_loaded s'))
                        (print LoadingCompleted s')))))"

text \<open>
  Lines 43 to 53: the DataFrame \<open>df\<close> has been read and the connection opened on the
  store \<open>db\<close>; nothing is pending.
\<close>

definition at_start :: "row list \<Rightarrow> database \<Rightarrow> loader_state" where
  "at_start df db =
     \<lparr>durable = db, pending = db, submissions_loaded = 0, scores_loaded = 0,
      trace = [Print ReadingCsv, Print (Found (int (length df))), Print Connecting]\<rparr>"

text \<open>
  \<^verbatim>\<open>load_survey_data\<close>. The handler rolls back and prints the error, the
  \<^verbatim>\<open>finally\<close> clause closes the connection. The result is the state the run ends in:
  \<open>durable\<close> is the store it leaves behind.
\<close>

definition load_survey_data :: "faults \<Rightarrow> row list \<Rightarrow> database \<Rightarrow> loader_state" where
  "load_survey_data raises df db =
     (let s1 = (case try_body raises df (at_start df db) of
                  Next s \<Rightarrow> s
                | Raised e s \<Rightarrow> rollback e s)
      in s1\<lparr>trace := trace s1 @ [Closed]\<rparr>)"

text \<open>
  A row written as the list of its fields that are not empty; \<^verbatim>\<open>pd.read_csv\<close> reads
  an empty field as NaN.
\<close>

definition csv_row :: "(string \<times> cell) list \<Rightarrow> row" where
  "csv_row cells col = (case map_of cells col of Some c \<Rightarrow> c | None \<Rightarrow> NaN)"

section \<open>The report generator: generate\_sample\_report\<close>

text \<open>
  The store as the three queries of \<^verbatim>\<open>report_generator.py\<close> read it, with the values
  pyodbc hands back: a text column is a \<^verbatim>\<open>str\<close> or \<open>None\<close> for NULL, the identifier a
  \<^verbatim>\<open>str\<close>, the ratio a number or \<open>None\<close>, the timestamp a naive \<^verbatim>\<open>datetime\<close> or
  \<open>None\<close>. The fields of a submission carry the alias \<^verbatim>\<open>s\<close> of the query. The store
  answers every query; the script has no handler for a failing one.
\<close>

record stored_submission =
  s_submission_id :: string
  s_created_at :: "datetime option"
  s_age_range_id :: "int option"
  s_region_id :: "int option"
  s_instability_ratio :: "rat option"
  s_first_name :: "string option"
  s_last_name :: "string option"
  s_email :: "string option"

record report_store =
  submissions_table :: "stored_submission list"
  age_ranges_table :: "(int \<times> string option) list"
  regions_table :: "(int \<times> string option) list"
  indicators_table :: "(int \<times> string) list"
  submission_scores_table :: "(string \<times> int \<times> int) list"

text \<open>
  The order of \<^verbatim>\<open>ORDER BY created_at DESC\<close>: timestamps by calendar and clock, NULL
  below every timestamp.
\<close>

definition created_key ::
  "stored_submission \<Rightarrow> (int \<times> int \<times> int \<times> int \<times> int \<times> int \<times> int) option"
where
  "created_key r =
     map_option (\<lambda>t. (year t, month t, day t, hour t, minute t, second t, microsecond t))
       (s_created_at r)"

text \<open>
  The first query (lines 55 to 61): \<^verbatim>\<open>SELECT TOP 1 submission_id FROM Submissions WHERE
  email IS NOT NULL ORDER BY created_at DESC\<close>, then \<^verbatim>\<open>fetchone\<close>. Among rows with the
  same greatest timestamp SQL promises none in particular; the model takes the first of
  the table.
\<close>

definition latest_with_email :: "stored_submission list \<Rightarrow> string option" where
  "latest_with_email subs =
     (case filter (\<lambda>r. s_email r \<noteq> None) subs of
        [] \<Rightarrow> None
      | r # rs \<Rightarrow>
          Some (s_submission_id
                  (fold (\<lambda>x best. if created_key best < created_key x then x else best) rs r)))"

text \<open>The row the second query yields, with the attributes of the pyodbc row.\<close>

record submission_row =
  submission_id :: string
  created_at :: "datetime option"
  instability_ratio :: "rat option"
  first_name :: "string option"
  last_name :: "string option"
  email :: "string option"
  age_range_label :: "string option"
  region_name :: "string option"

text \<open>
  \<^verbatim>\<open>LEFT JOIN\<close>: the label of the first lookup row with the key, NULL when the key is
  NULL or no lookup row has it.
\<close>

definition left_join_label :: "(int \<times> string option) list \<Rightarrow> int option \<Rightarrow> string option" where
  "left_join_label lookup key =
     (case key of
        None \<Rightarrow> None
      | Some k \<Rightarrow> (case find (\<lambda>(i, label). i = k) lookup of
                    None \<Rightarrow> None
                  | Some (i, label) \<Rightarrow> label))"

text \<open>The second query (lines 72 to 82) and \<^verbatim>\<open>fetchone\<close>: the first row with the ID.\<close>

definition fetch_submission :: "report_store \<Rightarrow> string \<Rightarrow> submission_row option" where
  "fetch_submission db sid =
     (case find (\<lambda>r. s_submission_id r = sid) (submissions_table db) of
        None \<Rightarrow> None
      | Some r \<Rightarrow>
          Some \<lparr>submission_id = s_submission_id r,
                created_at = s_created_at r,
                instability_ratio = s_instability_ratio r,
                first_name = s_first_name r,
                last_name = s_last_name r,
                email = s_email r,
                age_range_label = left_join_label (age_ranges_table db) (s_age_range_id r),
                region_name = left_join_label (regions_table db) (s_region_id r)\<rparr>)"

text \<open>
  The third query (lines 86 to 93): the scores of the submission joined to the names of
  their indicators, collected into a dict. A dict keeps a key where it was first
  inserted and the value that was assigned last.
\<close>

definition fetch_scores :: "report_store \<Rightarrow> string \<Rightarrow> (string \<times> int) list" where
  "fetch_scores db sid =
     fold (\<lambda>(name, score) d. AList.update name score d)
       (concat (map (\<lambda>(owner, ind, score).
                  if owner = sid
                  then map (\<lambda>(i, name). (name, score))
                         (filter (\<lambda>(i, name). i = ind) (indicators_table db))
                  else [])
               (submission_scores_table db)))
       []"

subsection \<open>Formatting\<close>

text \<open>The decimal digits of a number that is not negative.\<close>

function str_nat :: "int \<Rightarrow> string" where
  "str_nat n = (if n < 10 then [char_of (48 + n)] else str_nat (n div 10) @ [char_of (48 + n mod 10)])"
  by pat_completeness auto
termination
  by (relation "measure nat") auto

declare str_nat.simps [simp del]

text \<open>\<^verbatim>\<open>str(n)\<close> of an integer.\<close>

definition str_int :: "int \<Rightarrow> string" where
  "str_int n = (if n < 0 then ''-'' @ str_nat (- n) else str_nat n)"

definition zfill :: "nat \<Rightarrow> string \<Rightarrow> string" where
  "zfill w s = replicate (w - length s) (CHR ''0'') @ s"

text \<open>\<^verbatim>\<open>t.strftime('%Y-%m-%d')\<close>.\<close>

definition strftime_date :: "datetime \<Rightarrow> string" where
  "strftime_date t =
     zfill 4 (str_nat (year t)) @ ''-'' @ zfill 2 (str_nat (month t)) @ ''-''
       @ zfill 2 (str_nat (day t))"

text \<open>
  \<^verbatim>\<open>f"{x:.2f}"\<close> of a finite number: the value rounded to hundredths, ties to the even
  neighbour, with two decimals.
\<close>

definition round_half_even :: "rat \<Rightarrow> int" where
  "round_half_even x =
     (let n = \<lfloor>x\<rfloor>; f = x - of_int n
      in if f < 1 / 2 then n else if 1 / 2 < f then n + 1 else if even n then n else n + 1)"

definition format_2f :: "rat \<Rightarrow> string" where
  "format_2f x =
     (let q = round_half_even (\<bar>x\<bar> * 100)
      in (if x < 0 then ''-'' else '''') @ str_nat (q div 100) @ ''.'' @ zfill 2 (str_nat (q mod 100)))"

text \<open>\<^verbatim>\<open>x or alt\<close> for a text field: \<open>None\<close> and the empty string are false.\<close>

definition py_or :: "string option \<Rightarrow> string \<Rightarrow> string" where
  "py_or x alt = (case x of None \<Rightarrow> alt | Some v \<Rightarrow> if v = [] then alt else v)"

subsection \<open>The document\<close>

text \<open>
  The flowables of the story: a paragraph with its style, a spacer, a table with its
  cells and column widths (the table styles, which do not depend on the data, are left
  out).
\<close>

datatype flowable =
    Paragraph string string
  | Spacer int int
  | Table "string list list" "int list"

text \<open>
  Lines 113 to 119. \<^verbatim>\<open>strftime\<close> is called on the timestamp: \<open>None\<close> has no such
  attribute.
\<close>

definition user_data :: "submission_row \<Rightarrow> py_exn + string list list" where
  "user_data submission =
     (case created_at submission of
        None \<Rightarrow> Inl AttributeError
      | Some t \<Rightarrow>
          Inr [[''Name:'',
                py_or (first_name submission) ''N/A'' @ '' '' @ py_or (last_name submission) ''''],
               [''Email:'', py_or (email submission) ''N/A''],
               [''Submission Date:'', strftime_date t],
               [''Region:'', py_or (region_name submission) ''N/A''],
               [''Age Range:'', py_or (age_range_label submission) ''N/A'']])"

text \<open>
  Lines 140 to 148. The format specification \<^verbatim>\<open>.2f\<close> applied to \<open>None\<close> raises
  \<^verbatim>\<open>TypeError\<close>.
\<close>

definition score_data :: "submission_row \<Rightarrow> (string \<times> int) list \<Rightarrow> py_exn + string list list" where
  "score_data submission scores =
     (case instability_ratio submission of
        None \<Rightarrow> Inl TypeError
      | Some ratio \<Rightarrow>
          Inr ([[''Indicator'', ''Score'']]
               @ map (\<lambda>(indicator, score). [indicator, str_int score]) scores
               @ [[''Instability Ratio'', format_2f ratio]]))"

text \<open>
  What a run of the script leaves: the lines printed, the file written (its name and the
  story it was built from), and the exception the script died of, if any.
\<close>

record report_run =
  printed :: "string list"
  pdf :: "(string \<times> flowable list) option"
  died_of :: "py_exn option"

text \<open>
  \<^verbatim>\<open>generate_sample_report\<close>. The file is written by \<^verbatim>\<open>doc.build\<close> on line 166, after
  both tables have been assembled; an exception before that leaves no file.
\<close>

definition generate_sample_report :: "report_store \<Rightarrow> report_run" where
  "generate_sample_report db =
     (let out = [''Generating sample PDF report...''];
          crash = (\<lambda>e. \<lparr>printed = out, pdf = None, died_of = Some e\<rparr>)
      in case latest_with_email (submissions_table db) of
           None \<Rightarrow>
             \<lparr>printed = out @ [''No submissions with email found!''], pdf = None, died_of = None\<rparr>
         | Some sid \<Rightarrow>
             (case fetch_submission db sid of
                None \<Rightarrow> crash AttributeError
              | Some submission \<Rightarrow>
                  (let scores = fetch_scores db sid;
                       filename = ''stability_report_'' @ sid @ ''.pdf''
                   in case user_data submission of
                        Inl e \<Rightarrow> crash e
                      | Inr user_rows \<Rightarrow>
                          (case score_data submission scores of
                             Inl e \<Rightarrow> crash e
                           | Inr score_rows \<Rightarrow>
                               \<lparr>printed = out @ [''PDF report generated: '' @ filename],
                                pdf = Some (filename,
                                  [Paragraph ''STABILITY EVALUATION REPORT'' ''Heading1'',
                                   Spacer 1 20,
                                   Table user_rows [100, 400],
                                   Spacer 1 20,
                                   Paragraph ''Indicator Scores'' ''Heading2'',
                                   Table score_rows [350, 150]]),
                                died_of = None\<rparr>))))"

text \<open>Sample submissions for the report.\<close>

definition ann :: stored_submission where
  "ann =
     \<lparr>s_submission_id = ''3FA85F64-5717-4562-B3FC-2C963F66AFA6'',
      s_created_at = Some \<lparr>year = 2024, month = 1, day = 15, hour = 10, minute = 0, second = 0,
                           microsecond = 0, tzinfo = None\<rparr>,
      s_age_range_id = None,
      s_region_id = Some 7,
      s_instability_ratio = Some (21 / 50),
      s_first_name = Some ''Ann'',
      s_last_name = None,
      s_email = Some ''a@b.com''\<rparr>"

definition bob :: stored_submission where
  "bob =
     \<lparr>s_submission_id = ''00000000-0000-0000-0000-000000000002'',
      s_created_at = Some \<lparr>year = 2024, month = 2, day = 1, hour = 8, minute = 30, second = 0,
                           microsecond = 0, tzinfo = None\<rparr>,
      s_age_range_id = Some 2,
      s_region_id = Some 1,
      s_instability_ratio = None,
      s_first_name = Some ''Bob'',
      s_last_name = Some ''Stone'',
      s_email = Some ''bob@example.org''\<rparr>"

definition carol :: stored_submission where
  "carol =
     \<lparr>s_submission_id = ''00000000-0000-0000-0000-000000000003'',
      s_created_at = Some \<lparr>year = 2024, month = 3, day = 1, hour = 0, minute = 0, second = 0,
                           microsecond = 0, tzinfo = None\<rparr>,
      s_age_range_id = Some 1,
      s_region_id = Some 1,
      s_instability_ratio = Some (3 / 4),
      s_first_name = Some ''Carol'',
      s_last_name = Some ''Reed'',
      s_email = None\<rparr>"

definition report_sample :: "stored_submission list \<Rightarrow> report_store" where
  "report_sample subs =
     \<lparr>submissions_table = subs,
      age_ranges_table = [(1, Some ''18-24''), (2, Some ''25-34'')],
      regions_table = [(1, Some ''North''), (2, Some ''South'')],
      indicators_table =
        [(1, ''Economic Management''), (2, ''Immigration Policy''), (3, ''Foreign Policy''),
         (4, ''Domestic Policy''), (5, ''Social Policy'')],
      submission_scores_table =
        [(''3FA85F64-5717-4562-B3FC-2C963F66AFA6'', 1, 3),
         (''00000000-0000-0000-0000-000000000002'', 2, 4),
         (''3FA85F64-5717-4562-B3FC-2C963F66AFA6'', 5, 1)]\<rparr>"

section \<open>Vocabulary of the statements\<close>

text \<open>The state a flow ends in.\<close>

definition state_of :: "flow \<Rightarrow> loader_state" where
  "state_of f = (case f of Next s \<Rightarrow> s | Raised e s \<Rightarrow> s)"

text \<open>A piece of a trace in which nothing is committed, rolled back or closed.\<close>

definition prints_only :: "event list \<Rightarrow> bool" where
  "prints_only evs = list_all (\<lambda>ev. case ev of Print m \<Rightarrow> True | _ \<Rightarrow> False) evs"

text \<open>
  \<open>s'\<close> is reached from \<open>s\<close> inside the open transaction: the durable store is the
  same and the trace has grown by prints only.
\<close>

definition in_transaction :: "loader_state \<Rightarrow> loader_state \<Rightarrow> bool" where
  "in_transaction s s' =
     (durable s' = durable s \<and> prefix (trace s) (trace s')
      \<and> prints_only (drop (length (trace s)) (trace s')))"

section \<open>Sample inputs\<close>

text \<open>A store whose lookup tables are populated and that holds no submission yet.\<close>

definition seeded_store :: database where
  "seeded_store =
     \<lparr>AgeRanges = [(1, ''18-24''), (2, ''25-34'')],
      Regions = [(1, ''North''), (2, ''South'')],
      Indicators =
        [(1, ''Economic Management''), (2, ''Immigration Policy''), (3, ''Foreign Policy''),
         (4, ''Domestic Policy''), (5, ''Social Policy'')],
      Submissions = [], SubmissionScores = [], ReportRequests = []\<rparr>"

text \<open>The same store without the indicator \<^verbatim>\<open>Foreign Policy\<close>.\<close>

definition partly_seeded_store :: database where
  "partly_seeded_store =
     seeded_store\<lparr>Indicators :=
        [(1, ''Economic Management''), (2, ''Immigration Policy''),
         (4, ''Domestic Policy''), (5, ''Social Policy'')]\<rparr>"

text \<open>The row of the scenario in the specification.\<close>

definition scenario_row :: row where
  "scenario_row =
     csv_row [(''id'', Str ''3fa85f64-5717-4562-b3fc-2c963f66afa6''),
              (''created_at'', Str ''2024-01-15T10:00:00+00:00''),
              (''instability_ratio'', FloatV (21 / 50)),
              (''economic_management_rate'', IntV 3),
              (''email'', Str ''a@b.com'')]"

definition scenario_id :: uuid where
  "scenario_id = 84615604385365478182002687254108483494"

definition scenario_created_at :: datetime where
  "scenario_created_at =
     \<lparr>year = 2024, month = 1, day = 15, hour = 10, minute = 0, second = 0, microsecond = 0,
      tzinfo = None\<rparr>"

text \<open>What the scenario row leaves in the store.\<close>

definition scenario_store :: database where
  "scenario_store =
     seeded_store
       \<lparr>Submissions :=
          [(scenario_id, scenario_created_at, None, None, Some (FloatV (21 / 50)), None, None,
            Some (Str ''a@b.com''))],
        SubmissionScores := [(scenario_id, 1, 3)],
        ReportRequests := [(scenario_id, ''completed'')]\<rparr>"

text \<open>
  A row with all five rates, a known age range, an unknown region and an email of blanks
  only.
\<close>

definition full_row :: row where
  "full_row =
     csv_row [(''id'', Str ''00000000-0000-0000-0000-000000000002''),
              (''created_at'', Str ''2024-02-01T08:30:00''),
              (''age_range'', Str ''25-34''),
              (''region'', Str ''Atlantis''),
              (''first_name'', Str ''Ann''),
              (''email'', Str ''  ''),
              (''economic_management_rate'', IntV 3),
              (''immigration_policy_rate'', FloatV (5 / 2)),
              (''foreign_policy_rate'', Str ''4''),
              (''domestic_policy_rate'', IntV 1),
              (''social_policy_rate'', FloatV 5)]"

definition full_created_at :: datetime where
  "full_created_at =
     \<lparr>year = 2024, month = 2, day = 1, hour = 8, minute = 30, second = 0, microsecond = 0,
      tzinfo = None\<rparr>"

text \<open>What the full row leaves in the store.\<close>

definition full_store :: database where
  "full_store =
     seeded_store
       \<lparr>Submissions :=
          [(2, full_created_at, Some 2, None, None, Some (Str ''Ann''), None, Some (Str ''  ''))],
        SubmissionScores := [(2, 1, 3), (2, 2, 2), (2, 3, 4), (2, 4, 1), (2, 5, 5)]\<rparr>"

text \<open>A row whose ID is no UUID.\<close>

definition malformed_id_row :: row where
  "malformed_id_row =
     csv_row [(''id'', Str ''not-a-uuid''),
              (''created_at'', Str ''2024-03-01T00:00:00''),
              (''email'', Str ''c@d.org''),
              (''social_policy_rate'', IntV 2)]"

section \<open>Properties of the loader\<close>

subsection \<open>Printing and the open transaction\<close>

lemma print_simps [simp]:
  "pending (print m s) = pending s"
  "durable (print m s) = durable s"
  "submissions_loaded (print m s) = submissions_loaded s"
  "scores_loaded (print m s) = scores_loaded s"
  "trace (print m s) = trace s @ [Print m]"
  by (simp_all add: print_def)

lemma progress_simps [simp]:
  "pending (progress i s) = pending s"
  "durable (progress i s) = durable s"
  "submissions_loaded (progress i s) = submissions_loaded s"
  "scores_loaded (progress i s) = scores_loaded s"
  by (simp_all add: progress_def)

lemma at_start_simps [simp]:
  "pending (at_start df db) = db"
  "durable (at_start df db) = db"
  "submissions_loaded (at_start df db) = 0"
  "scores_loaded (at_start df db) = 0"
  by (simp_all add: at_start_def)

lemma trace_progress:
  "trace (progress i s) = trace s @ (if i mod 50 = 0 then [Print (Processed i)] else [])"
  by (simp add: progress_def)

lemma state_of_simps [simp]:
  "state_of (Next s) = s"
  "state_of (Raised e s) = s"
  by (simp_all add: state_of_def)

lemma in_transaction_refl [simp]: "in_transaction s s"
  by (simp add: in_transaction_def prints_only_def)

lemma in_transaction_trans:
  assumes "in_transaction a b" and "in_transaction b c"
  shows "in_transaction a c"
proof -
  from assms obtain x y where "trace b = trace a @ x" and "trace c = trace b @ y"
    by (auto simp: in_transaction_def prefix_def)
  with assms show ?thesis
    by (simp add: in_transaction_def prints_only_def)
qed

lemma in_transaction_print [simp]: "in_transaction s (print m s)"
  by (simp add: in_transaction_def prints_only_def)

lemma in_transaction_progress [simp]: "in_transaction s (progress i s)"
  by (simp add: progress_def)

lemma in_transaction_same:
  "durable s' = durable s \<Longrightarrow> trace s' = trace s \<Longrightarrow> in_transaction s s'"
  by (simp add: in_transaction_def prints_only_def)

subsection \<open>What one iteration leaves alone\<close>

lemma execute_tables:
  assumes "execute raises stmt db = Inr db'"
  shows "db' = apply_statement stmt db"
  using assms by (simp add: execute_def split: option.splits)

lemma insert_scores_keeps:
  "durable (state_of (insert_scores raises ind sid row items s)) = durable s
   \<and> trace (state_of (insert_scores raises ind sid row items s)) = trace s
   \<and> submissions_loaded (state_of (insert_scores raises ind sid row items s)) = submissions_loaded s
   \<and> ReportRequests (pending (state_of (insert_scores raises ind sid row items s)))
       = ReportRequests (pending s)
   \<and> Submissions (pending (state_of (insert_scores raises ind sid row items s)))
       = Submissions (pending s)"
proof (induction items arbitrary: s)
  case Nil
  show ?case by simp
next
  case (Cons item items)
  obtain col name where item: "item = (col, name)" by (cases item)
  show ?case
    using Cons.IH
    by (simp add: item execute_def split: option.split sum.split)
qed

lemma insert_report_request_keeps:
  "durable (state_of (insert_report_request raises sid row s)) = durable s
   \<and> trace (state_of (insert_report_request raises sid row s)) = trace s
   \<and> submissions_loaded (state_of (insert_report_request raises sid row s)) = submissions_loaded s
   \<and> scores_loaded (state_of (insert_report_request raises sid row s)) = scores_loaded s
   \<and> SubmissionScores (pending (state_of (insert_report_request raises sid row s)))
       = SubmissionScores (pending s)
   \<and> Submissions (pending (state_of (insert_report_request raises sid row s)))
       = Submissions (pending s)"
  by (simp add: insert_report_request_def execute_def split: cell.split sum.split option.split)

lemma process_row_keeps:
  "durable (state_of (process_row raises a r ind i row s)) = durable s
   \<and> trace (state_of (process_row raises a r ind i row s)) = trace (progress i s)"
proof -
  have tail: "durable (state_of (case f of Raised e s' \<Rightarrow> Raised e s'
                                 | Next s' \<Rightarrow> insert_report_request raises sid row s'))
                = durable (state_of f)
              \<and> trace (state_of (case f of Raised e s' \<Rightarrow> Raised e s'
                                   | Next s' \<Rightarrow> insert_report_request raises sid row s'))
                = trace (state_of f)" for f sid
    using insert_report_request_keeps by (simp split: flow.split)
  show ?thesis
    using insert_scores_keeps
    by (simp add: process_row_def Let_def tail split: sum.split py_exn.split)
qed

lemma process_row_in_transaction:
  "in_transaction s (state_of (process_row raises a r ind i row s))"
  using process_row_keeps [of raises a r ind i row s]
  by (simp add: in_transaction_def trace_progress prints_only_def)

lemma process_rows_in_transaction:
  "in_transaction s (state_of (process_rows raises a r ind i rows s))"
proof (induction rows arbitrary: i s)
  case Nil
  show ?case by simp
next
  case (Cons row rows)
  show ?case
  proof (cases "process_row raises a r ind i row s")
    case (Next s')
    with process_row_in_transaction [of s raises a r ind i row]
    have "in_transaction s s'" by simp
    with Cons.IH [where i = "i + 1" and s = s'] Next show ?thesis
      by (auto intro: in_transaction_trans)
  next
    case (Raised e s')
    with process_row_in_transaction [of s raises a r ind i row]
    show ?thesis by simp
  qed
qed

text \<open>The loop over a frame cut in two.\<close>

lemma process_rows_append:
  "process_rows raises a r ind i (pre @ post) s =
     (case process_rows raises a r ind i pre s of
        Raised e s' \<Rightarrow> Raised e s'
      | Next s' \<Rightarrow> process_rows raises a r ind (i + int (length pre)) post s')"
proof (induction pre arbitrary: i s)
  case Nil
  show ?case by simp
next
  case (Cons row pre)
  show ?case
    by (simp add: Cons.IH add.assoc split: flow.split)
qed

subsection \<open>The lookups and the run\<close>

lemma load_lookup_result:
  assumes "load_lookup raises q m s = Inr (d, s')"
    and "q = SelectAgeRanges \<or> q = SelectRegions \<or> q = SelectIndicators"
  shows "d = dict_by_label (fetchall q (pending s)) \<and> s' = print m s"
  using assms
  by (auto simp: load_lookup_def execute_def split: option.splits)

lemma load_lookup_in_transaction:
  assumes "load_lookup raises q m s = Inr (d, s')"
  shows "in_transaction s s'"
  using assms
  by (auto simp: load_lookup_def execute_def in_transaction_def prints_only_def
      split: option.splits)

lemma load_and_process_in_transaction:
  "in_transaction s0 (state_of (load_and_process raises df s0))"
proof -
  let ?s1 = "print LoadingLookups s0"
  have t1: "in_transaction s0 ?s1" by simp
  show ?thesis
  proof (cases "load_lookup raises SelectAgeRanges AgeRangesMsg ?s1")
    case (Inl e)
    with t1 show ?thesis by (simp add: load_and_process_def)
  next
    case (Inr p1)
    then obtain a s2 where l1: "load_lookup raises SelectAgeRanges AgeRangesMsg ?s1 = Inr (a, s2)"
      by (cases p1) simp
    from t1 load_lookup_in_transaction [OF l1] have t2: "in_transaction s0 s2"
      by (rule in_transaction_trans)
    show ?thesis
    proof (cases "load_lookup raises SelectRegions RegionsMsg s2")
      case (Inl e)
      with l1 t2 show ?thesis by (simp add: load_and_process_def)
    next
      case (Inr p2)
      then obtain r s3 where l2: "load_lookup raises SelectRegions RegionsMsg s2 = Inr (r, s3)"
        by (cases p2) simp
      from t2 load_lookup_in_transaction [OF l2] have t3: "in_transaction s0 s3"
        by (rule in_transaction_trans)
      show ?thesis
      proof (cases "load_lookup raises SelectIndicators IndicatorsMsg s3")
        case (Inl e)
        with l1 l2 t3 show ?thesis by (simp add: load_and_process_def)
      next
        case (Inr p3)
        then obtain ind s4 where
          l3: "load_lookup raises SelectIndicators IndicatorsMsg s3 = Inr (ind, s4)"
          by (cases p3) simp
        let ?s5 = "print ProcessingSubmissions (s4\<lparr>submissions_loaded := 0, scores_loaded := 0\<rparr>)"
        have "in_transaction s4 ?s5"
          by (simp add: in_transaction_def prints_only_def)
        with t3 load_lookup_in_transaction [OF l3] have "in_transaction s0 ?s5"
          by (blast intro: in_transaction_trans)
        then have "in_transaction s0 (state_of (process_rows raises a r ind 0 df ?s5))"
          using process_rows_in_transaction by (blast intro: in_transaction_trans)
        with l1 l2 l3 show ?thesis by (simp add: load_and_process_def)
      qed
    qed
  qed
qed

text \<open>The three lookup queries change nothing; the caches are read off the tables.\<close>

lemma load_lookup_select:
  "load_lookup raises SelectAgeRanges m s =
     (case raises (pending s) SelectAgeRanges of
        Some e \<Rightarrow> Inl e
      | None \<Rightarrow> Inr (dict_by_label (AgeRanges (pending s)), print m s))"
  "load_lookup raises SelectRegions m s =
     (case raises (pending s) SelectRegions of
        Some e \<Rightarrow> Inl e
      | None \<Rightarrow> Inr (dict_by_label (Regions (pending s)), print m s))"
  "load_lookup raises SelectIndicators m s =
     (case raises (pending s) SelectIndicators of
        Some e \<Rightarrow> Inl e
      | None \<Rightarrow> Inr (dict_by_label (Indicators (pending s)), print m s))"
  by (simp_all add: load_lookup_def execute_def split: option.split)

lemma load_and_process_unfold:
  "load_and_process raises df s0 =
     (case raises (pending s0) SelectAgeRanges of
        Some e \<Rightarrow> Raised e (print LoadingLookups s0)
      | None \<Rightarrow>
          (case raises (pending s0) SelectRegions of
             Some e \<Rightarrow> Raised e (print AgeRangesMsg (print LoadingLookups s0))
           | None \<Rightarrow>
               (case raises (pending s0) SelectIndicators of
                  Some e \<Rightarrow>
                    Raised e (print RegionsMsg (print AgeRangesMsg (print LoadingLookups s0)))
                | None \<Rightarrow>
                    process_rows raises (dict_by_label (AgeRanges (pending s0)))
                      (dict_by_label (Regions (pending s0)))
                      (dict_by_label (Indicators (pending s0))) 0 df
                      (print ProcessingSubmissions
                         ((print IndicatorsMsg (print RegionsMsg (print AgeRangesMsg
                             (print LoadingLookups s0))))
                          \<lparr>submissions_loaded := 0, scores_loaded := 0\<rparr>)))))"
  by (simp add: load_and_process_def Let_def load_lookup_select split: option.split)

lemma process_rows_append_0:
  "process_rows raises a r ind 0 (pre @ post) s =
     (case process_rows raises a r ind 0 pre s of
        Raised e s' \<Rightarrow> Raised e s'
      | Next s' \<Rightarrow> process_rows raises a r ind (int (length pre)) post s')"
  using process_rows_append [of raises a r ind 0 pre post s]
  by (simp split: flow.split)

lemma load_and_process_append:
  "load_and_process raises (pre @ post) s0 =
     (case load_and_process raises pre s0 of
        Raised e s \<Rightarrow> Raised e s
      | Next s \<Rightarrow>
          process_rows raises (dict_by_label (AgeRanges (pending s0)))
            (dict_by_label (Regions (pending s0))) (dict_by_label (Indicators (pending s0)))
            (int (length pre)) post s)"
  by (simp add: load_and_process_unfold process_rows_append_0 split: option.split)

text \<open>An exception that leaves the loop ends the run in the handler.\<close>

lemma run_aborted:
  assumes "load_and_process raises df (at_start df db) = Raised e s"
  shows "durable (load_survey_data raises df db) = db
         \<and> pending (load_survey_data raises df db) = db
         \<and> trace (load_survey_data raises df db) = trace s @ [RolledBack, Print (Error e), Closed]"
proof -
  from load_and_process_in_transaction [of "at_start df db" raises df] assms
  have "durable s = db"
    by (simp add: in_transaction_def at_start_def)
  with assms show ?thesis
    by (simp add: load_survey_data_def try_body_def rollback_def)
qed

lemma run_commit_refused:
  assumes "load_and_process raises df (at_start df db) = Next s"
    and "raises (pending s) Commit = Some e"
  shows "durable (load_survey_data raises df db) = db
         \<and> trace (load_survey_data raises df db) = trace s @ [RolledBack, Print (Error e), Closed]"
proof -
  from load_and_process_in_transaction [of "at_start df db" raises df] assms
  have "durable s = db"
    by (simp add: in_transaction_def at_start_def)
  with assms show ?thesis
    by (simp add: load_survey_data_def try_body_def rollback_def commit_def)
qed

lemma run_committed:
  assumes "load_and_process raises df (at_start df db) = Next s"
    and "raises (pending s) Commit = None"
  shows "durable (load_survey_data raises df db) = pending s
         \<and> trace (load_survey_data raises df db) =
             trace s @ [Committed, Print LoadingCompleted,
                        Print (SubmissionsLoaded (submissions_loaded s)),
                        Print (ScoresLoaded (scores_loaded s)), Closed]"
  using assms
  by (simp add: load_survey_data_def try_body_def commit_def)

lemma prints_only_before_commit:
  "prints_only (trace (state_of (load_and_process raises df (at_start df db))))"
proof -
  from load_and_process_in_transaction [of "at_start df db" raises df]
  obtain evs where
    "trace (state_of (load_and_process raises df (at_start df db)))
       = trace (at_start df db) @ evs" and "prints_only evs"
    by (auto simp: in_transaction_def prefix_def)
  then show ?thesis
    by (simp add: prints_only_def at_start_def)
qed

subsection \<open>Claim C2: one commit at the end, or a rollback\<close>

text \<open>
  Claim C2. The loader commits exactly once, after every input row has been processed; if
  an exception leaves the processing (or the commit itself is refused), the handler rolls
  back: the store the run leaves behind is the store it started from, and the run ends
  after printing the error.

  \<open>load_and_process\<close> is the processing up to the end of the loop over all rows of
  \<open>df\<close>. When it ends normally in the state \<open>s\<close>, the store left behind is \<open>pending s\<close>
  and the trace of the run is that of \<open>s\<close> followed by the commit, the three closing
  prints and the close; otherwise the store is \<open>db\<close> again and the trace ends with the
  rollback, the error message and the close. The trace up to that point holds prints
  only, so the commit is the only one.
\<close>

theorem commit_once_or_rollback:
  "(case load_and_process raises df (at_start df db) of
      Next s \<Rightarrow>
        (case raises (pending s) Commit of
           None \<Rightarrow>
             durable (load_survey_data raises df db) = pending s
             \<and> trace (load_survey_data raises df db) =
                 trace s @ [Committed, Print LoadingCompleted,
                            Print (SubmissionsLoaded (submissions_loaded s)),
                            Print (ScoresLoaded (scores_loaded s)), Closed]
         | Some e \<Rightarrow>
             durable (load_survey_data raises df db) = db
             \<and> trace (load_survey_data raises df db) =
                 trace s @ [RolledBack, Print (Error e), Closed])
    | Raised e s \<Rightarrow>
        durable (load_survey_data raises df db) = db
        \<and> trace (load_survey_data raises df db) =
            trace s @ [RolledBack, Print (Error e), Closed])
   \<and> prints_only (trace (state_of (load_and_process raises df (at_start df db))))"
proof -
  have "case load_and_process raises df (at_start df db) of
      Next s \<Rightarrow>
        (case raises (pending s) Commit of
           None \<Rightarrow>
             durable (load_survey_data raises df db) = pending s
             \<and> trace (load_survey_data raises df db) =
                 trace s @ [Committed, Print LoadingCompleted,
                            Print (SubmissionsLoaded (submissions_loaded s)),
                            Print (ScoresLoaded (scores_loaded s)), Closed]
         | Some e \<Rightarrow>
             durable (load_survey_data raises df db) = db
             \<and> trace (load_survey_data raises df db) =
                 trace s @ [RolledBack, Print (Error e), Closed])
    | Raised e s \<Rightarrow>
        durable (load_survey_data raises df db) = db
        \<and> trace (load_survey_data raises df db) =
            trace s @ [RolledBack, Print (Error e), Closed]"
  proof (cases "load_and_process raises df (at_start df db)")
    case (Raised e s)
    with run_aborted [OF Raised] show ?thesis by simp
  next
    case (Next s)
    show ?thesis
    proof (cases "raises (pending s) Commit")
      case None
      with Next run_committed [OF Next None] show ?thesis by simp
    next
      case (Some e)
      with Next run_commit_refused [OF Next Some] show ?thesis by simp
    qed
  qed
  with prints_only_before_commit show ?thesis by blast
qed

text \<open>
  Two runs on the seeded store. The first loads the scenario row and the full row and
  commits once, at the end. In the second the store loses the connection at the
  submission of the full row: the scenario row, inserted before, does not survive.
\<close>

theorem commit_once_or_rollback_witness:
  "durable (load_survey_data unique_submission_id [scenario_row, full_row] seeded_store)
     = pending (state_of (load_and_process unique_submission_id [scenario_row, full_row]
                            (at_start [scenario_row, full_row] seeded_store)))
   \<and> Submissions (durable (load_survey_data unique_submission_id [scenario_row, full_row]
                             seeded_store))
     = Submissions scenario_store @ Submissions full_store
   \<and> count_list (trace (load_survey_data unique_submission_id [scenario_row, full_row]
                          seeded_store)) Committed = 1
   \<and> durable (load_survey_data (refusing 2 DatabaseError) [scenario_row, full_row] seeded_store)
     = seeded_store
   \<and> trace (load_survey_data (refusing 2 DatabaseError) [scenario_row, full_row] seeded_store)
     = [Print ReadingCsv, Print (Found 2), Print Connecting, Print LoadingLookups,
        Print AgeRangesMsg, Print RegionsMsg, Print IndicatorsMsg, Print ProcessingSubmissions,
        Print (Processed 0), RolledBack, Print (Error DatabaseError), Closed]"
proof -
  let ?df = "[scenario_row, full_row]"
  let ?ok = "load_and_process unique_submission_id ?df (at_start ?df seeded_store)"
  let ?ko = "load_and_process (refusing 2 DatabaseError) ?df (at_start ?df seeded_store)"
  have ok: "?ok = Next (state_of ?ok)"
    by code_simp
  have commit: "unique_submission_id (pending (state_of ?ok)) Commit = None"
    by (simp add: unique_submission_id_def)
  have subs: "Submissions (pending (state_of ?ok))
                = Submissions scenario_store @ Submissions full_store"
    by code_simp
  have tr: "trace (state_of ?ok)
              = [Print ReadingCsv, Print (Found 2), Print Connecting, Print LoadingLookups,
                 Print AgeRangesMsg, Print RegionsMsg, Print IndicatorsMsg,
                 Print ProcessingSubmissions, Print (Processed 0)]"
    by code_simp
  have ko: "?ko = Raised DatabaseError (state_of ?ko)"
    by code_simp
  have tr': "trace (state_of ?ko)
              = [Print ReadingCsv, Print (Found 2), Print Connecting, Print LoadingLookups,
                 Print AgeRangesMsg, Print RegionsMsg, Print IndicatorsMsg,
                 Print ProcessingSubmissions, Print (Processed 0)]"
    by code_simp
  from commit_once_or_rollback [of unique_submission_id ?df seeded_store] ok commit
  have 1: "durable (load_survey_data unique_submission_id ?df seeded_store)
             = pending (state_of ?ok)
           \<and> trace (load_survey_data unique_submission_id ?df seeded_store) =
               trace (state_of ?ok)
                 @ [Committed, Print LoadingCompleted,
                    Print (SubmissionsLoaded (submissions_loaded (state_of ?ok))),
                    Print (ScoresLoaded (scores_loaded (state_of ?ok))), Closed]"
    by (cases ?ok) simp_all
  from commit_once_or_rollback [of "refusing 2 DatabaseError" ?df seeded_store] ko
  have 2: "durable (load_survey_data (refusing 2 DatabaseError) ?df seeded_store) = seeded_store
           \<and> trace (load_survey_data (refusing 2 DatabaseError) ?df seeded_store) =
               trace (state_of ?ko) @ [RolledBack, Print (Error DatabaseError), Closed]"
    by (cases ?ko) simp_all
  from 1 2 subs tr tr' show ?thesis
    by simp
qed

subsection \<open>Claim C3: a row whose ID is no UUID\<close>

text \<open>
  Claim C3. When the \<^verbatim>\<open>id\<close> field of a row does not parse as a UUID, the iteration
  ends normally with the state it started in, but for the progress message that is
  printed before the ID is looked at (every fifty rows): nothing is inserted, nothing
  counted, no error raised or printed, and the loop goes on with the next row.
\<close>

theorem invalid_uuid_row_skipped:
  assumes "uuid_UUID (row ''id'') = Inl e"
  shows "process_row raises age_ranges regions indicators index row s = Next (progress index s)
         \<and> process_rows raises age_ranges regions indicators index (row # rows) s
            = process_rows raises age_ranges regions indicators (index + 1) rows (progress index s)
         \<and> pending (progress index s) = pending s
         \<and> durable (progress index s) = durable s
         \<and> submissions_loaded (progress index s) = submissions_loaded s
         \<and> scores_loaded (progress index s) = scores_loaded s
         \<and> trace (progress index s)
            = trace s @ (if index mod 50 = 0 then [Print (Processed index)] else [])"
  using assms
  by (simp add: process_row_def trace_progress)

text \<open>
  A frame with the malformed row between the scenario row and the full row leaves what
  the frame without it leaves.
\<close>

theorem invalid_uuid_row_skipped_witness:
  "uuid_UUID (malformed_id_row ''id'') = Inl ValueError
   \<and> process_rows unique_submission_id (dict_by_label (AgeRanges seeded_store))
        (dict_by_label (Regions seeded_store)) (dict_by_label (Indicators seeded_store))
        1 [malformed_id_row, full_row] (at_start [] scenario_store)
      = process_rows unique_submission_id (dict_by_label (AgeRanges seeded_store))
        (dict_by_label (Regions seeded_store)) (dict_by_label (Indicators seeded_store))
        2 [full_row] (at_start [] scenario_store)
   \<and> pending (state_of (process_row unique_submission_id (dict_by_label (AgeRanges seeded_store))
        (dict_by_label (Regions seeded_store)) (dict_by_label (Indicators seeded_store))
        1 malformed_id_row (at_start [] scenario_store))) = scenario_store"
proof -
  have bad: "uuid_UUID (malformed_id_row ''id'') = Inl ValueError"
    by code_simp
  have "progress 1 (at_start [] scenario_store) = at_start [] scenario_store"
    by (simp add: progress_def)
  with invalid_uuid_row_skipped [where row = malformed_id_row and e = ValueError
      and raises = unique_submission_id
      and age_ranges = "dict_by_label (AgeRanges seeded_store)"
      and regions = "dict_by_label (Regions seeded_store)"
      and indicators = "dict_by_label (Indicators seeded_store)"
      and index = 1 and s = "at_start [] scenario_store" and rows = "[full_row]"]
    bad
  show ?thesis
    by (simp del: process_rows.simps)
qed

subsection \<open>Claim C1: a refused Submission insert\<close>

text \<open>What an iteration does when the store refuses the Submission.\<close>

lemma process_row_refused:
  assumes "uuid_UUID (row ''id'') = Inr sid"
    and "parse_created_at (row ''created_at'') = Inr ts"
    and "raises (pending s) (submission_insert a r sid ts row) = Some e"
  shows "process_row raises a r ind i row s =
           (case e of IntegrityError v \<Rightarrow> Next (progress i s) | _ \<Rightarrow> Raised e (progress i s))"
  using assms
  by (simp add: process_row_def execute_def split: py_exn.split)

text \<open>
  Claim C1, as the code has it. Let the rows \<open>pre\<close> before \<open>row\<close> be processed normally,
  let the ID and the timestamp of \<open>row\<close> parse, and let the store refuse its Submission
  with the exception \<open>e\<close>. If \<open>e\<close> is an integrity error (a duplicate submission ID or
  any other constraint violation) the rest of the iteration is skipped: the loop goes on
  with the rows after \<open>row\<close> from the state before it (plus the progress message), so no
  score and no report request of the row is inserted. Any other exception ends the run in
  the handler: the store left behind is the initial one and the trace ends with the
  rollback, the error message and the close.
\<close>

theorem refused_submission_skipped_or_fatal:
  assumes pre: "load_and_process raises pre (at_start df db) = Next s"
    and df: "df = pre @ row # post"
    and sid: "uuid_UUID (row ''id'') = Inr sid"
    and ts: "parse_created_at (row ''created_at'') = Inr ts"
    and refused:
      "raises (pending s)
         (submission_insert (dict_by_label (AgeRanges db)) (dict_by_label (Regions db)) sid ts row)
       = Some e"
  shows "case e of
           IntegrityError v \<Rightarrow>
             load_and_process raises df (at_start df db) =
               process_rows raises (dict_by_label (AgeRanges db)) (dict_by_label (Regions db))
                 (dict_by_label (Indicators db)) (int (length pre) + 1) post
                 (progress (int (length pre)) s)
         | _ \<Rightarrow>
             durable (load_survey_data raises df db) = db
             \<and> trace (load_survey_data raises df db) =
                 trace (progress (int (length pre)) s) @ [RolledBack, Print (Error e), Closed]"
proof -
  let ?a = "dict_by_label (AgeRanges db)"
  let ?r = "dict_by_label (Regions db)"
  let ?i = "dict_by_label (Indicators db)"
  let ?n = "int (length pre)"
  have start: "pending (at_start df db) = db"
    by (simp add: at_start_def)
  have "load_and_process raises (pre @ row # post) (at_start df db) =
          (case load_and_process raises pre (at_start df db) of
             Raised e' s' \<Rightarrow> Raised e' s'
           | Next s' \<Rightarrow> process_rows raises ?a ?r ?i ?n (row # post) s')"
    using load_and_process_append [of raises pre "row # post" "at_start df db"]
    unfolding start .
  with pre have run: "load_and_process raises df (at_start df db)
               = process_rows raises ?a ?r ?i ?n (row # post) s"
    by (simp add: df)
  from sid ts refused
  have row: "process_row raises ?a ?r ?i ?n row s =
               (case e of IntegrityError v \<Rightarrow> Next (progress ?n s)
                | _ \<Rightarrow> Raised e (progress ?n s))"
    by (rule process_row_refused)
  show ?thesis
  proof (cases e)
    case (IntegrityError v)
    with run row show ?thesis by simp
  next
    case DatabaseError
    with run row have "load_and_process raises df (at_start df db) = Raised e (progress ?n s)"
      by simp
    from run_aborted [OF this] DatabaseError show ?thesis by simp
  next
    case (KeyError k)
    with run row have "load_and_process raises df (at_start df db) = Raised e (progress ?n s)"
      by simp
    from run_aborted [OF this] KeyError show ?thesis by simp
  next
    case ValueError
    with run row have "load_and_process raises df (at_start df db) = Raised e (progress ?n s)"
      by simp
    from run_aborted [OF this] ValueError show ?thesis by simp
  next
    case AttributeError
    with run row have "load_and_process raises df (at_start df db) = Raised e (progress ?n s)"
      by simp
    from run_aborted [OF this] AttributeError show ?thesis by simp
  next
    case TypeError
    with run row have "load_and_process raises df (at_start df db) = Raised e (progress ?n s)"
      by simp
    from run_aborted [OF this] TypeError show ?thesis by simp
  next
    case OverflowError
    with run row have "load_and_process raises df (at_start df db) = Raised e (progress ?n s)"
      by simp
    from run_aborted [OF this] OverflowError show ?thesis by simp
  qed
qed

text \<open>
  The claim as the specification words it fails: a store refuses the submission of the
  scenario row for a constraint that is not the uniqueness of the ID, and the run neither
  rolls back nor stops. It goes on to the full row and commits it.
\<close>

theorem other_constraint_violation_is_skipped:
  "refusing scenario_id (IntegrityError OtherConstraint) seeded_store
     (submission_insert (dict_by_label (AgeRanges seeded_store))
        (dict_by_label (Regions seeded_store)) scenario_id scenario_created_at scenario_row)
     = Some (IntegrityError OtherConstraint)
   \<and> durable (load_survey_data (refusing scenario_id (IntegrityError OtherConstraint))
                [scenario_row, full_row] seeded_store) = full_store
   \<and> trace (load_survey_data (refusing scenario_id (IntegrityError OtherConstraint))
              [scenario_row, full_row] seeded_store)
      = [Print ReadingCsv, Print (Found 2), Print Connecting, Print LoadingLookups,
         Print AgeRangesMsg, Print RegionsMsg, Print IndicatorsMsg, Print ProcessingSubmissions,
         Print (Processed 0), Committed, Print LoadingCompleted, Print (SubmissionsLoaded 1),
         Print (ScoresLoaded 5), Closed]"
  by code_simp

text \<open>
  The duplicate of the scenario row is skipped, and a lost connection at the same place
  ends the run with the store as it was.
\<close>

theorem refused_submission_skipped_or_fatal_witness:
  "load_and_process unique_submission_id [scenario_row]
       (at_start [scenario_row, scenario_row, full_row] seeded_store)
     = Next (state_of (load_and_process unique_submission_id [scenario_row]
                         (at_start [scenario_row, scenario_row, full_row] seeded_store)))
   \<and> uuid_UUID (scenario_row ''id'') = Inr scenario_id
   \<and> parse_created_at (scenario_row ''created_at'') = Inr scenario_created_at
   \<and> unique_submission_id
        (pending (state_of (load_and_process unique_submission_id [scenario_row]
                              (at_start [scenario_row, scenario_row, full_row] seeded_store))))
        (submission_insert (dict_by_label (AgeRanges seeded_store))
           (dict_by_label (Regions seeded_store)) scenario_id scenario_created_at scenario_row)
      = Some (IntegrityError DuplicateKey)
   \<and> load_and_process unique_submission_id [scenario_row, scenario_row, full_row]
        (at_start [scenario_row, scenario_row, full_row] seeded_store)
      = process_rows unique_submission_id (dict_by_label (AgeRanges seeded_store))
          (dict_by_label (Regions seeded_store)) (dict_by_label (Indicators seeded_store))
          2 [full_row]
          (state_of (load_and_process unique_submission_id [scenario_row]
                       (at_start [scenario_row, scenario_row, full_row] seeded_store)))"
proof -
  let ?df = "[scenario_row, scenario_row, full_row]"
  let ?s = "state_of (load_and_process unique_submission_id [scenario_row]
                        (at_start ?df seeded_store))"
  have pre: "load_and_process unique_submission_id [scenario_row] (at_start ?df seeded_store)
               = Next ?s"
    by code_simp
  have df: "?df = [scenario_row] @ scenario_row # [full_row]"
    by simp
  have sid: "uuid_UUID (scenario_row ''id'') = Inr scenario_id"
    by code_simp
  have ts: "parse_created_at (scenario_row ''created_at'') = Inr scenario_created_at"
    by code_simp
  have refused: "unique_submission_id (pending ?s)
      (submission_insert (dict_by_label (AgeRanges seeded_store))
         (dict_by_label (Regions seeded_store)) scenario_id scenario_created_at scenario_row)
      = Some (IntegrityError DuplicateKey)"
    by code_simp
  from pre df sid ts refused
  have "case IntegrityError DuplicateKey of
          IntegrityError v \<Rightarrow>
            load_and_process unique_submission_id ?df (at_start ?df seeded_store) =
              process_rows unique_submission_id (dict_by_label (AgeRanges seeded_store))
                (dict_by_label (Regions seeded_store)) (dict_by_label (Indicators seeded_store))
                (int (length [scenario_row]) + 1) [full_row]
                (progress (int (length [scenario_row])) ?s)
        | _ \<Rightarrow>
            durable (load_survey_data unique_submission_id ?df seeded_store) = seeded_store
            \<and> trace (load_survey_data unique_submission_id ?df seeded_store) =
                trace (progress (int (length [scenario_row])) ?s)
                  @ [RolledBack, Print (Error (IntegrityError DuplicateKey)), Closed]"
    by (rule refused_submission_skipped_or_fatal)
  moreover have "progress 1 ?s = ?s"
    by (simp add: progress_def)
  ultimately show ?thesis
    using pre sid ts refused
    by (simp del: process_rows.simps)
qed

subsection \<open>An accepted Submission\<close>

lemma process_row_accepted:
  assumes "uuid_UUID (row ''id'') = Inr sid"
    and "parse_created_at (row ''created_at'') = Inr ts"
    and "raises (pending s) (submission_insert a r sid ts row) = None"
  shows "process_row raises a r ind i row s =
           (case insert_scores raises ind sid row indicator_mapping
                   ((progress i s)
                      \<lparr>pending := apply_statement (submission_insert a r sid ts row) (pending s),
                       submissions_loaded := submissions_loaded s + 1\<rparr>) of
              Raised e s' \<Rightarrow> Raised e s'
            | Next s' \<Rightarrow> insert_report_request raises sid row s')"
  using assms
  by (simp add: process_row_def execute_def)

lemma submission_insert_tables:
  "ReportRequests (apply_statement (submission_insert a r sid ts row) db) = ReportRequests db"
  "SubmissionScores (apply_statement (submission_insert a r sid ts row) db) = SubmissionScores db"
  by (simp_all add: submission_insert_def)

text \<open>
  An iteration that inserts its Submission and ends normally went through the loop over
  the indicators and through the email test.
\<close>

lemma process_row_done:
  assumes sid: "uuid_UUID (row ''id'') = Inr sid"
    and ts: "parse_created_at (row ''created_at'') = Inr ts"
    and accepted: "raises (pending s) (submission_insert a r sid ts row) = None"
    and ends: "process_row raises a r ind i row s = Next s'"
  obtains s0 s1 where
    "ReportRequests (pending s0) = ReportRequests (pending s)"
    "SubmissionScores (pending s0) = SubmissionScores (pending s)"
    "insert_scores raises ind sid row indicator_mapping s0 = Next s1"
    "insert_report_request raises sid row s1 = Next s'"
proof -
  let ?s0 = "(progress i s)
      \<lparr>pending := apply_statement (submission_insert a r sid ts row) (pending s),
       submissions_loaded := submissions_loaded s + 1\<rparr>"
  from sid ts accepted
  have unfold: "process_row raises a r ind i row s =
           (case insert_scores raises ind sid row indicator_mapping ?s0 of
              Raised e s' \<Rightarrow> Raised e s'
            | Next s' \<Rightarrow> insert_report_request raises sid row s')"
    by (rule process_row_accepted)
  show thesis
  proof (cases "insert_scores raises ind sid row indicator_mapping ?s0")
    case (Raised e s1)
    with unfold ends show thesis by simp
  next
    case (Next s1)
    with unfold ends have "insert_report_request raises sid row s1 = Next s'"
      by simp
    with Next show thesis
      by (intro that [of ?s0 s1]) (simp_all add: submission_insert_tables)
  qed
qed

subsection \<open>Claim C4: one report request for a row with an email\<close>

lemma blank_after_strip:
  "py_strip s = [] \<longleftrightarrow> list_all py_isspace s"
proof -
  let ?t = "dropWhile py_isspace s"
  have "(\<forall>c \<in> set ?t. py_isspace c) \<longleftrightarrow> ?t = []"
  proof
    assume all: "\<forall>c \<in> set ?t. py_isspace c"
    show "?t = []"
    proof (rule ccontr)
      assume ne: "?t \<noteq> []"
      then have "\<not> py_isspace (hd ?t)"
        by (rule hd_dropWhile)
      moreover from ne have "hd ?t \<in> set ?t"
        by (rule hd_in_set)
      ultimately show False
        using all by blast
    qed
  next
    assume "?t = []"
    then show "\<forall>c \<in> set ?t. py_isspace c"
      by (simp only: set_simps ball_empty)
  qed
  then have "py_strip s = [] \<longleftrightarrow> ?t = []"
    by (simp add: py_strip_def dropWhile_eq_Nil_conv)
  then show ?thesis
    by (simp add: dropWhile_eq_Nil_conv list_all_iff)
qed

lemma insert_report_request_rows:
  assumes "insert_report_request raises sid row s = Next s'"
  shows "ReportRequests (pending s') =
           ReportRequests (pending s)
             @ (if \<exists>email. row ''email'' = Str email \<and> \<not> list_all py_isspace email
                then [(sid, ''completed'')] else [])"
  using assms
  by (auto simp: insert_report_request_def execute_def blank_after_strip
      split: cell.splits if_splits option.splits)

text \<open>
  Claim C4. Take a row whose ID and timestamp parse and whose Submission the store
  accepts, and let its iteration end normally. Then the iteration has added to
  \<open>ReportRequests\<close> exactly one row, (the submission ID, \<^verbatim>\<open>completed\<close>), if the email
  field is a string with a character that is not whitespace, and no row otherwise (the
  field is empty, or blank).
\<close>

theorem report_request_iff_email:
  assumes sid: "uuid_UUID (row ''id'') = Inr sid"
    and ts: "parse_created_at (row ''created_at'') = Inr ts"
    and accepted: "raises (pending s) (submission_insert age_ranges regions sid ts row) = None"
    and ends: "process_row raises age_ranges regions indicators index row s = Next s'"
  shows "ReportRequests (pending s') =
           ReportRequests (pending s)
             @ (if \<exists>email. row ''email'' = Str email \<and> \<not> list_all py_isspace email
                then [(sid, ''completed'')] else [])"
proof -
  from sid ts accepted ends obtain s0 s1 where
    s0: "ReportRequests (pending s0) = ReportRequests (pending s)" and
    s1: "insert_scores raises indicators sid row indicator_mapping s0 = Next s1" and
    s': "insert_report_request raises sid row s1 = Next s'"
    by (rule process_row_done)
  from insert_scores_keeps [of raises indicators sid row indicator_mapping s0] s1 s0
  have "ReportRequests (pending s1) = ReportRequests (pending s)"
    by simp
  with insert_report_request_rows [OF s'] show ?thesis
    by simp
qed

text \<open>
  The scenario row, with the email \<^verbatim>\<open>a@b.com\<close>, adds one request to the seeded store;
  the full row, whose email is two blanks, adds none.
\<close>

theorem report_request_iff_email_witness:
  "ReportRequests (pending (state_of (process_row unique_submission_id
      (dict_by_label (AgeRanges seeded_store)) (dict_by_label (Regions seeded_store))
      (dict_by_label (Indicators seeded_store)) 0 scenario_row (at_start [] seeded_store))))
     = [(scenario_id, ''completed'')]
   \<and> ReportRequests (pending (state_of (process_row unique_submission_id
      (dict_by_label (AgeRanges seeded_store)) (dict_by_label (Regions seeded_store))
      (dict_by_label (Indicators seeded_store)) 0 full_row (at_start [] seeded_store))))
     = []"
proof -
  let ?a = "dict_by_label (AgeRanges seeded_store)"
  let ?r = "dict_by_label (Regions seeded_store)"
  let ?i = "dict_by_label (Indicators seeded_store)"
  let ?s = "at_start [] seeded_store"
  let ?p1 = "process_row unique_submission_id ?a ?r ?i 0 scenario_row ?s"
  let ?p2 = "process_row unique_submission_id ?a ?r ?i 0 full_row ?s"
  have sid1: "uuid_UUID (scenario_row ''id'') = Inr scenario_id"
    by code_simp
  have ts1: "parse_created_at (scenario_row ''created_at'') = Inr scenario_created_at"
    by code_simp
  have acc1: "unique_submission_id (pending ?s)
      (submission_insert ?a ?r scenario_id scenario_created_at scenario_row) = None"
    by code_simp
  have ends1: "?p1 = Next (state_of ?p1)"
    by code_simp
  have email1: "\<exists>email. scenario_row ''email'' = Str email \<and> \<not> list_all py_isspace email"
  proof (intro exI conjI)
    show "scenario_row ''email'' = Str ''a@b.com''" by code_simp
    show "\<not> list_all py_isspace ''a@b.com''" by code_simp
  qed
  have sid2: "uuid_UUID (full_row ''id'') = Inr 2"
    by code_simp
  have ts2: "parse_created_at (full_row ''created_at'') = Inr full_created_at"
    by code_simp
  have acc2: "unique_submission_id (pending ?s)
      (submission_insert ?a ?r 2 full_created_at full_row) = None"
    by code_simp
  have ends2: "?p2 = Next (state_of ?p2)"
    by code_simp
  have row2: "full_row ''email'' = Str ''  ''"
    by code_simp
  have blank: "list_all py_isspace ''  ''"
    by code_simp
  from row2 blank
  have email2: "\<not> (\<exists>email. full_row ''email'' = Str email \<and> \<not> list_all py_isspace email)"
    by simp
  from sid1 ts1 acc1 ends1
  have "ReportRequests (pending (state_of ?p1)) =
          ReportRequests (pending ?s)
            @ (if \<exists>email. scenario_row ''email'' = Str email \<and> \<not> list_all py_isspace email
               then [(scenario_id, ''completed'')] else [])"
    by (rule report_request_iff_email)
  moreover from sid2 ts2 acc2 ends2
  have "ReportRequests (pending (state_of ?p2)) =
          ReportRequests (pending ?s)
            @ (if \<exists>email. full_row ''email'' = Str email \<and> \<not> list_all py_isspace email
               then [(2, ''completed'')] else [])"
    by (rule report_request_iff_email)
  moreover have "ReportRequests (pending ?s) = []"
    by (simp add: seeded_store_def)
  ultimately show ?thesis
    using email1 email2 by simp
qed

subsection \<open>Claim C5: one score for each populated indicator column\<close>

lemma insert_scores_rows:
  assumes "insert_scores raises ind sid row items s = Next s'"
  shows "\<exists>new. SubmissionScores (pending s') = SubmissionScores (pending s) @ new
           \<and> list_all2 (\<lambda>(col, name) (sid', k, v).
                 sid' = sid \<and> ind name = Some k \<and> py_int (row col) = Inr v)
               (filter (\<lambda>(col, name). notna (row col)) items) new"
  using assms
proof (induction items arbitrary: s)
  case Nil
  then show ?case by simp
next
  case (Cons item items)
  obtain col name where item: "item = (col, name)" by (cases item)
  show ?case
  proof (cases "notna (row col)")
    case False
    with Cons.prems item have "insert_scores raises ind sid row items s = Next s'"
      by simp
    from Cons.IH [OF this] False item show ?thesis
      by simp
  next
    case True
    with Cons.prems item obtain k v db where
      k: "ind name = Some k" and v: "py_int (row col) = Inr v" and
      db: "execute raises (InsertSubmissionScore sid k v) (pending s) = Inr db" and
      rest: "insert_scores raises ind sid row items
               (s\<lparr>pending := db, scores_loaded := scores_loaded s + 1\<rparr>) = Next s'"
      by (auto split: option.splits sum.splits)
    from execute_tables [OF db]
    have scores: "SubmissionScores db = SubmissionScores (pending s) @ [(sid, k, v)]"
      by simp
    from Cons.IH [OF rest] obtain new where
      new: "SubmissionScores (pending s') = SubmissionScores db @ new" and
      all: "list_all2 (\<lambda>(col, name) (sid', k, v).
                 sid' = sid \<and> ind name = Some k \<and> py_int (row col) = Inr v)
               (filter (\<lambda>(col, name). notna (row col)) items) new"
      by auto
    show ?thesis
    proof (intro exI conjI)
      show "SubmissionScores (pending s') = SubmissionScores (pending s) @ ((sid, k, v) # new)"
        using new scores by simp
      show "list_all2 (\<lambda>(col, name) (sid', k, v).
                 sid' = sid \<and> ind name = Some k \<and> py_int (row col) = Inr v)
               (filter (\<lambda>(col, name). notna (row col)) (item # items)) ((sid, k, v) # new)"
        using all True k v item by simp
    qed
  qed
qed

text \<open>
  Claim C5. Take a row whose ID and timestamp parse and whose Submission the store
  accepts, and let its iteration end normally. Then the iteration has added to
  \<open>SubmissionScores\<close> one row for each of the five indicator columns that has a value,
  in the order of the mapping and none for the others: the row carries the submission
  ID, the surrogate key the indicator cache gives for the label of the column, and the
  value of the column coerced by \<^verbatim>\<open>int\<close>. When all five columns have a value, these are
  five rows.
\<close>

theorem scores_for_populated_columns:
  assumes sid: "uuid_UUID (row ''id'') = Inr sid"
    and ts: "parse_created_at (row ''created_at'') = Inr ts"
    and accepted: "raises (pending s) (submission_insert age_ranges regions sid ts row) = None"
    and ends: "process_row raises age_ranges regions indicators index row s = Next s'"
  shows "\<exists>new. SubmissionScores (pending s') = SubmissionScores (pending s) @ new
           \<and> list_all2 (\<lambda>(col, name) (sid', k, v).
                 sid' = sid \<and> indicators name = Some k \<and> py_int (row col) = Inr v)
               (filter (\<lambda>(col, name). notna (row col)) indicator_mapping) new
           \<and> ((\<forall>(col, name) \<in> set indicator_mapping. notna (row col)) \<longrightarrow> length new = 5)"
proof -
  from sid ts accepted ends obtain s0 s1 where
    s0: "SubmissionScores (pending s0) = SubmissionScores (pending s)" and
    s1: "insert_scores raises indicators sid row indicator_mapping s0 = Next s1" and
    s': "insert_report_request raises sid row s1 = Next s'"
    by (rule process_row_done)
  from insert_scores_rows [OF s1] obtain new where
    new: "SubmissionScores (pending s1) = SubmissionScores (pending s0) @ new" and
    all: "list_all2 (\<lambda>(col, name) (sid', k, v).
                 sid' = sid \<and> indicators name = Some k \<and> py_int (row col) = Inr v)
               (filter (\<lambda>(col, name). notna (row col)) indicator_mapping) new"
    by auto
  from insert_report_request_keeps [of raises sid row s1] s'
  have "SubmissionScores (pending s') = SubmissionScores (pending s1)"
    by simp
  with new s0 have 1: "SubmissionScores (pending s') = SubmissionScores (pending s) @ new"
    by simp
  have 2: "length new = 5" if "\<forall>(col, name) \<in> set indicator_mapping. notna (row col)"
  proof -
    from that
    have "filter (\<lambda>(col, name). notna (row col)) indicator_mapping = indicator_mapping"
      by (intro filter_True) auto
    with list_all2_lengthD [OF all] show ?thesis
      by (simp add: indicator_mapping_def)
  qed
  from 1 all 2 show ?thesis
    by blast
qed

text \<open>
  The full row has the rates 3, 2.5, \<^verbatim>\<open>'4'\<close>, 1 and 5.0: five scores, 3, 2, 4, 1 and 5,
  under the keys 1 to 5 of the seeded indicators.
\<close>

theorem scores_for_populated_columns_witness:
  "SubmissionScores (pending (state_of (process_row unique_submission_id
      (dict_by_label (AgeRanges seeded_store)) (dict_by_label (Regions seeded_store))
      (dict_by_label (Indicators seeded_store)) 0 full_row (at_start [] seeded_store))))
     = [(2, 1, 3), (2, 2, 2), (2, 3, 4), (2, 4, 1), (2, 5, 5)]
   \<and> (\<exists>new. SubmissionScores (pending (state_of (process_row unique_submission_id
      (dict_by_label (AgeRanges seeded_store)) (dict_by_label (Regions seeded_store))
      (dict_by_label (Indicators seeded_store)) 0 full_row (at_start [] seeded_store))))
         = SubmissionScores seeded_store @ new \<and> length new = 5)"
proof -
  let ?a = "dict_by_label (AgeRanges seeded_store)"
  let ?r = "dict_by_label (Regions seeded_store)"
  let ?i = "dict_by_label (Indicators seeded_store)"
  let ?s = "at_start [] seeded_store"
  let ?p = "process_row unique_submission_id ?a ?r ?i 0 full_row ?s"
  have sid: "uuid_UUID (full_row ''id'') = Inr 2"
    by code_simp
  have ts: "parse_created_at (full_row ''created_at'') = Inr full_created_at"
    by code_simp
  have acc: "unique_submission_id (pending ?s)
      (submission_insert ?a ?r 2 full_created_at full_row) = None"
    by code_simp
  have ends: "?p = Next (state_of ?p)"
    by code_simp
  have populated: "\<forall>(col, name) \<in> set indicator_mapping. notna (full_row col)"
    by code_simp
  have scores: "SubmissionScores (pending (state_of ?p))
                  = [(2, 1, 3), (2, 2, 2), (2, 3, 4), (2, 4, 1), (2, 5, 5)]"
    by code_simp
  from sid ts acc ends
  have "\<exists>new. SubmissionScores (pending (state_of ?p)) = SubmissionScores (pending ?s) @ new
           \<and> list_all2 (\<lambda>(col, name) (sid', k, v).
                 sid' = 2 \<and> ?i name = Some k \<and> py_int (full_row col) = Inr v)
               (filter (\<lambda>(col, name). notna (full_row col)) indicator_mapping) new
           \<and> ((\<forall>(col, name) \<in> set indicator_mapping. notna (full_row col))
                \<longrightarrow> length new = 5)"
    by (rule scores_for_populated_columns)
  with populated scores show ?thesis
    by auto
qed

subsection \<open>Claim C9: lenient lookups for age range and region, a strict one for indicators\<close>

lemma insert_scores_unmapped:
  assumes "(col, name) \<in> set items" and "notna (row col)" and "ind name = None"
  shows "\<exists>e s'. insert_scores raises ind sid row items s = Raised e s'"
  using assms
proof (induction items arbitrary: s)
  case Nil
  then show ?case by simp
next
  case (Cons item items)
  obtain col' name' where item: "item = (col', name')" by (cases item)
  show ?case
  proof (cases "item = (col, name)")
    case True
    with Cons.prems show ?thesis by simp
  next
    case False
    with Cons.prems have "(col, name) \<in> set items" by simp
    from Cons.IH [OF this Cons.prems(2,3)]
    have rest: "\<exists>e s'. insert_scores raises ind sid row items s0 = Raised e s'" for s0
      by simp
    show ?thesis
      using rest by (simp add: item split: option.split sum.split)
  qed
qed

text \<open>
  Claim C9. The lookup of lines 97 and 98 has no raising path: for a cell that is NaN
  (an absent or empty field) or that equals no label of the cache it gives \<open>None\<close>. The
  subscript of line 137 raises \<^verbatim>\<open>KeyError\<close> for a label that is not in the indicator
  cache, before anything is sent for that column. And in a run: let the rows \<open>pre\<close>
  before \<open>row\<close> be processed normally, let the ID and the timestamp of \<open>row\<close> parse and
  the store accept its Submission; if one of the indicator columns of \<open>row\<close> has a value
  and its label is not in the \<open>Indicators\<close> table, the run ends in the handler: the
  store left behind is the initial one and the trace ends with the rollback, the error
  message and the close.
\<close>

theorem lenient_lookups_strict_indicators:
  assumes pre: "load_and_process raises pre (at_start df db) = Next s"
    and df: "df = pre @ row # post"
    and sid: "uuid_UUID (row ''id'') = Inr sid"
    and ts: "parse_created_at (row ''created_at'') = Inr ts"
    and accepted:
      "raises (pending s)
         (submission_insert (dict_by_label (AgeRanges db)) (dict_by_label (Regions db)) sid ts row)
       = None"
    and col: "(col, name) \<in> set indicator_mapping"
    and populated: "notna (row col)"
    and unmapped: "dict_by_label (Indicators db) name = None"
  shows "(\<forall>d c. c = NaN \<or> (\<forall>label. c = Str label \<longrightarrow> d label = None)
                  \<longrightarrow> lookup_label d c = None)
         \<and> (\<forall>items s0. insert_scores raises (dict_by_label (Indicators db)) sid row
                          ((col, name) # items) s0 = Raised (KeyError name) s0)
         \<and> (\<exists>e s'. load_and_process raises df (at_start df db) = Raised e s'
                \<and> durable (load_survey_data raises df db) = db
                \<and> trace (load_survey_data raises df db)
                   = trace s' @ [RolledBack, Print (Error e), Closed])"
proof (intro conjI)
  show "\<forall>d c. c = NaN \<or> (\<forall>label. c = Str label \<longrightarrow> d label = None)
                \<longrightarrow> lookup_label d c = None"
    by (auto simp: lookup_label_def dict_get_def notna_def split: cell.split)
next
  show "\<forall>items s0. insert_scores raises (dict_by_label (Indicators db)) sid row
                      ((col, name) # items) s0 = Raised (KeyError name) s0"
    using populated unmapped by simp
next
  let ?a = "dict_by_label (AgeRanges db)"
  let ?r = "dict_by_label (Regions db)"
  let ?i = "dict_by_label (Indicators db)"
  let ?n = "int (length pre)"
  let ?s0 = "(progress ?n s)
      \<lparr>pending := apply_statement (submission_insert ?a ?r sid ts row) (pending s),
       submissions_loaded := submissions_loaded s + 1\<rparr>"
  have "load_and_process raises (pre @ row # post) (at_start df db) =
          (case load_and_process raises pre (at_start df db) of
             Raised e' s' \<Rightarrow> Raised e' s'
           | Next s' \<Rightarrow> process_rows raises ?a ?r ?i ?n (row # post) s')"
    using load_and_process_append [of raises pre "row # post" "at_start df db"]
    unfolding at_start_simps .
  with pre have run: "load_and_process raises df (at_start df db)
               = process_rows raises ?a ?r ?i ?n (row # post) s"
    by (simp add: df)
  from sid ts accepted
  have unfold: "process_row raises ?a ?r ?i ?n row s =
           (case insert_scores raises ?i sid row indicator_mapping ?s0 of
              Raised e s' \<Rightarrow> Raised e s'
            | Next s' \<Rightarrow> insert_report_request raises sid row s')"
    by (rule process_row_accepted)
  from col populated unmapped
  have "\<exists>e s'. insert_scores raises ?i sid row indicator_mapping ?s0 = Raised e s'"
    by (rule insert_scores_unmapped)
  then obtain e s' where
    "insert_scores raises ?i sid row indicator_mapping ?s0 = Raised e s'"
    by blast
  with unfold have "process_row raises ?a ?r ?i ?n row s = Raised e s'"
    by simp
  with run have raised: "load_and_process raises df (at_start df db) = Raised e s'"
    by simp
  from run_aborted [OF raised] raised
  show "\<exists>e s'. load_and_process raises df (at_start df db) = Raised e s'
           \<and> durable (load_survey_data raises df db) = db
           \<and> trace (load_survey_data raises df db)
              = trace s' @ [RolledBack, Print (Error e), Closed]"
    by blast
qed

text \<open>
  In the store without the indicator \<^verbatim>\<open>Foreign Policy\<close>, the full row (whose region
  \<^verbatim>\<open>Atlantis\<close> is in no table, and is passed as NULL) stops the run when its third rate
  is reached, and the scenario row loaded before it is rolled back with it.
\<close>

theorem lenient_lookups_strict_indicators_witness:
  "lookup_label (dict_by_label (Regions partly_seeded_store)) (full_row ''region'') = None
   \<and> lookup_label (dict_by_label (AgeRanges partly_seeded_store)) (scenario_row ''age_range'')
      = None
   \<and> durable (load_survey_data unique_submission_id [scenario_row, full_row] partly_seeded_store)
      = partly_seeded_store
   \<and> trace (load_survey_data unique_submission_id [scenario_row, full_row] partly_seeded_store)
      = [Print ReadingCsv, Print (Found 2), Print Connecting, Print LoadingLookups,
         Print AgeRangesMsg, Print RegionsMsg, Print IndicatorsMsg, Print ProcessingSubmissions,
         Print (Processed 0), RolledBack, Print (Error (KeyError ''Foreign Policy'')), Closed]"
proof -
  let ?df = "[scenario_row, full_row]"
  let ?db = "partly_seeded_store"
  let ?s = "state_of (load_and_process unique_submission_id [scenario_row] (at_start ?df ?db))"
  have pre: "load_and_process unique_submission_id [scenario_row] (at_start ?df ?db) = Next ?s"
    by code_simp
  have df: "?df = [scenario_row] @ full_row # []"
    by simp
  have sid: "uuid_UUID (full_row ''id'') = Inr 2"
    by code_simp
  have ts: "parse_created_at (full_row ''created_at'') = Inr full_created_at"
    by code_simp
  have accepted: "unique_submission_id (pending ?s)
      (submission_insert (dict_by_label (AgeRanges ?db)) (dict_by_label (Regions ?db))
         2 full_created_at full_row) = None"
    by code_simp
  have col: "(''foreign_policy_rate'', ''Foreign Policy'') \<in> set indicator_mapping"
    by (simp add: indicator_mapping_def)
  have populated: "notna (full_row ''foreign_policy_rate'')"
    by code_simp
  have unmapped: "dict_by_label (Indicators ?db) ''Foreign Policy'' = None"
    by code_simp
  have nan: "scenario_row ''age_range'' = NaN"
    by code_simp
  have atlantis: "full_row ''region'' = Str ''Atlantis''"
    by code_simp
  have no_atlantis: "dict_by_label (Regions ?db) ''Atlantis'' = None"
    by code_simp
  have tr: "trace (load_survey_data unique_submission_id ?df ?db)
      = [Print ReadingCsv, Print (Found 2), Print Connecting, Print LoadingLookups,
         Print AgeRangesMsg, Print RegionsMsg, Print IndicatorsMsg, Print ProcessingSubmissions,
         Print (Processed 0), RolledBack, Print (Error (KeyError ''Foreign Policy'')), Closed]"
    by code_simp
  from pre df sid ts accepted col populated unmapped
  have "(\<forall>d c. c = NaN \<or> (\<forall>label. c = Str label \<longrightarrow> d label = None)
                  \<longrightarrow> lookup_label d c = None)
         \<and> (\<forall>items s0. insert_scores unique_submission_id (dict_by_label (Indicators ?db)) 2
                          full_row ((''foreign_policy_rate'', ''Foreign Policy'') # items) s0
                        = Raised (KeyError ''Foreign Policy'') s0)
         \<and> (\<exists>e s'. load_and_process unique_submission_id ?df (at_start ?df ?db) = Raised e s'
                \<and> durable (load_survey_data unique_submission_id ?df ?db) = ?db
                \<and> trace (load_survey_data unique_submission_id ?df ?db)
                   = trace s' @ [RolledBack, Print (Error e), Closed])"
    by (rule lenient_lookups_strict_indicators)
  note main = this
  from main
  have lenient: "\<forall>d c. c = NaN \<or> (\<forall>label. c = Str label \<longrightarrow> d label = None)
                        \<longrightarrow> lookup_label d c = None"
    by (rule conjunct1)
  from main
  have "\<exists>e s'. load_and_process unique_submission_id ?df (at_start ?df ?db) = Raised e s'
                \<and> durable (load_survey_data unique_submission_id ?df ?db) = ?db
                \<and> trace (load_survey_data unique_submission_id ?df ?db)
                   = trace s' @ [RolledBack, Print (Error e), Closed]"
    by (rule conjunct2 [THEN conjunct2])
  then have aborted: "durable (load_survey_data unique_submission_id ?df ?db) = ?db"
    by (elim exE conjE)
  have 1: "lookup_label (dict_by_label (Regions ?db)) (full_row ''region'') = None"
    by (rule lenient [THEN spec, THEN spec, THEN mp]) (simp add: atlantis no_atlantis)
  have 2: "lookup_label (dict_by_label (AgeRanges ?db)) (scenario_row ''age_range'') = None"
    by (rule lenient [THEN spec, THEN spec, THEN mp]) (simp add: nan)
  from 1 2 aborted tr show ?thesis
    by simp
qed


subsection \<open>Claim C6: the creation timestamp\<close>

lemma replace_from_without_first:
  assumes "old = c # rest" and "c \<notin> set t"
  shows "replace_from old new t = t"
  using assms by (induction t) auto

lemma replace_from_suffix:
  assumes "old = c # rest" and "c \<notin> set t"
  shows "replace_from old new (t @ old) = t @ new"
  using assms by (induction t) auto

lemma replace_from_absent:
  assumes "\<forall>u v. s \<noteq> u @ old @ v"
  shows "replace_from old new s = s"
  using assms
proof (induction s)
  case Nil
  show ?case by simp
next
  case (Cons c cs)
  have "\<not> prefix old (c # cs)"
  proof
    assume "prefix old (c # cs)"
    then obtain v where "c # cs = [] @ old @ v"
      by (auto simp: prefix_def)
    with Cons.prems show False by blast
  qed
  moreover have "\<forall>u v. cs \<noteq> u @ old @ v"
  proof (intro allI notI)
    fix u v
    assume "cs = u @ old @ v"
    then have "c # cs = (c # u) @ old @ v" by simp
    with Cons.prems show False by blast
  qed
  ultimately show ?case
    using Cons.IH by simp
qed

text \<open>
  Claim C6, as the code has it. Let \<open>t\<close> be an ISO-8601 timestamp without offset: the
  parser reads it as the naive value \<open>d\<close>, and it holds no plus sign. Then the loader
  reads both \<open>t\<close> and \<open>t\<close> followed by the literal \<^verbatim>\<open>+00:00\<close> as \<open>d\<close>, the naive
  timestamp of the clock reading. Nothing else is stripped: a string in which
  \<^verbatim>\<open>+00:00\<close> does not occur reaches the parser as it is, with its offset if it has one.
\<close>

theorem created_at_utc_suffix_stripped:
  assumes "fromisoformat t = Inr d" and "tzinfo d = None" and "CHR ''+'' \<notin> set t"
  shows "parse_created_at (Str t) = Inr d
         \<and> parse_created_at (Str (t @ ''+00:00'')) = Inr d
         \<and> (\<forall>s. (\<forall>u v. s \<noteq> u @ ''+00:00'' @ v)
                \<longrightarrow> parse_created_at (Str s) = fromisoformat s)"
proof (intro conjI allI impI)
  from assms(3) have "replace_from ''+00:00'' '''' t = t"
    by (intro replace_from_without_first [where c = "CHR ''+''" and rest = "''00:00''"]) simp_all
  with assms(1) show "parse_created_at (Str t) = Inr d"
    by (simp add: parse_created_at_def py_replace_def)
next
  from assms(3) have "replace_from ''+00:00'' '''' (t @ ''+00:00'') = t @ ''''"
    by (intro replace_from_suffix [where c = "CHR ''+''" and rest = "''00:00''"]) simp_all
  with assms(1) show "parse_created_at (Str (t @ ''+00:00'')) = Inr d"
    by (simp add: parse_created_at_def py_replace_def)
next
  fix s :: string
  assume "\<forall>u v. s \<noteq> u @ ''+00:00'' @ v"
  then have "replace_from ''+00:00'' '''' s = s"
    by (rule replace_from_absent)
  then show "parse_created_at (Str s) = fromisoformat s"
    by (simp add: parse_created_at_def py_replace_def)
qed

text \<open>
  The claim as the specification words it fails for a timestamp with another offset:
  the offset stays, and the value the loader passes to the store is aware, five and a
  half hours east of UTC.
\<close>

theorem created_at_other_offset_is_aware:
  "parse_created_at (Str ''2024-01-15T10:00:00+05:30'')
     = Inr \<lparr>year = 2024, month = 1, day = 15, hour = 10, minute = 0, second = 0,
            microsecond = 0, tzinfo = Some 19800000000\<rparr>"
  by code_simp

theorem created_at_utc_suffix_stripped_witness:
  "fromisoformat ''2024-01-15T10:00:00'' = Inr scenario_created_at
   \<and> tzinfo scenario_created_at = None
   \<and> CHR ''+'' \<notin> set ''2024-01-15T10:00:00''
   \<and> parse_created_at (Str ''2024-01-15T10:00:00'') = Inr scenario_created_at
   \<and> parse_created_at (Str ''2024-01-15T10:00:00+00:00'') = Inr scenario_created_at"
proof -
  have p: "fromisoformat ''2024-01-15T10:00:00'' = Inr scenario_created_at"
    by code_simp
  have n: "tzinfo scenario_created_at = None"
    by (simp add: scenario_created_at_def)
  have c: "CHR ''+'' \<notin> set ''2024-01-15T10:00:00''"
    by simp
  from created_at_utc_suffix_stripped [OF p n c] p n c show ?thesis
    by simp
qed

section \<open>Properties of the report generator\<close>

subsection \<open>Claim C8: the latest submission with an email\<close>

text \<open>The fold of the first query ends on a row of the list that no row is later than.\<close>

lemma fold_latest:
  "fold (\<lambda>x best. if created_key best < created_key x then x else best) rs r \<in> set (r # rs)
   \<and> (\<forall>x \<in> set (r # rs).
         created_key x
           \<le> created_key (fold (\<lambda>x best. if created_key best < created_key x then x else best) rs r))"
proof (induction rs arbitrary: r)
  case Nil
  show ?case by simp
next
  case (Cons y rs)
  let ?f = "\<lambda>x best. if created_key best < created_key x then x else best"
  let ?r = "?f y r"
  have step: "fold ?f (y # rs) r = fold ?f rs ?r"
    by simp
  from Cons.IH [of ?r]
  have mem: "fold ?f rs ?r \<in> set (?r # rs)"
    and top: "\<forall>x \<in> set (?r # rs). created_key x \<le> created_key (fold ?f rs ?r)"
    by blast+
  have r: "created_key r \<le> created_key ?r" and y: "created_key y \<le> created_key ?r"
    by auto
  from top have "created_key ?r \<le> created_key (fold ?f rs ?r)"
    by simp
  with r y have "created_key r \<le> created_key (fold ?f rs ?r)"
    and "created_key y \<le> created_key (fold ?f rs ?r)"
    by (blast intro: order_trans)+
  moreover from top have "\<forall>x \<in> set rs. created_key x \<le> created_key (fold ?f rs ?r)"
    by simp
  moreover from mem have "fold ?f rs ?r \<in> set (r # y # rs)"
    by (cases "created_key r < created_key y") auto
  ultimately show ?case
    unfolding step by simp
qed

lemma latest_with_email_none:
  "latest_with_email subs = None \<longleftrightarrow> (\<forall>r \<in> set subs. s_email r = None)"
proof (cases "filter (\<lambda>r. s_email r \<noteq> None) subs")
  case Nil
  then have "\<forall>r \<in> set subs. s_email r = None"
    by (simp add: filter_empty_conv)
  with Nil show ?thesis
    by (simp add: latest_with_email_def)
next
  case (Cons r rs)
  then have "r \<in> set (filter (\<lambda>r. s_email r \<noteq> None) subs)"
    by simp
  then have "r \<in> set subs" and "s_email r \<noteq> None"
    by simp_all
  with Cons show ?thesis
    by (auto simp: latest_with_email_def)
qed

lemma latest_with_email_some:
  assumes "latest_with_email subs = Some sid"
  shows "\<exists>r \<in> set subs. s_submission_id r = sid \<and> s_email r \<noteq> None
           \<and> (\<forall>r' \<in> set subs. s_email r' \<noteq> None \<longrightarrow> created_key r' \<le> created_key r)"
proof -
  let ?f = "\<lambda>x best. if created_key best < created_key x then x else best"
  from assms obtain r rs where
    cands: "filter (\<lambda>r. s_email r \<noteq> None) subs = r # rs" and
    sid: "sid = s_submission_id (fold ?f rs r)"
    by (auto simp: latest_with_email_def split: list.splits)
  from fold_latest [of rs r] cands
  have mem: "fold ?f rs r \<in> set (filter (\<lambda>r. s_email r \<noteq> None) subs)"
    and top: "\<forall>x \<in> set (filter (\<lambda>r. s_email r \<noteq> None) subs).
                created_key x \<le> created_key (fold ?f rs r)"
    by simp_all
  from mem have "fold ?f rs r \<in> set subs" and "s_email (fold ?f rs r) \<noteq> None"
    by simp_all
  moreover from top
  have "\<forall>r' \<in> set subs. s_email r' \<noteq> None \<longrightarrow> created_key r' \<le> created_key (fold ?f rs r)"
    by simp
  ultimately show ?thesis
    using sid by blast
qed

lemma report_for_selected:
  assumes "latest_with_email (submissions_table db) = Some sid"
  shows "case pdf (generate_sample_report db) of
           None \<Rightarrow> died_of (generate_sample_report db) \<noteq> None
         | Some (filename, story) \<Rightarrow> filename = ''stability_report_'' @ sid @ ''.pdf''"
  using assms
  by (simp add: generate_sample_report_def Let_def split: option.split sum.split)

text \<open>
  Claim C8. When the first query yields no row, no submission has an email, and the run
  prints that none was found and ends with no file written and no exception. When it
  yields the ID \<open>sid\<close>, a submission with that ID has an email and no submission with an
  email has a later creation timestamp; the file the run writes, if it does not die
  first, is named after \<open>sid\<close>.
\<close>

theorem latest_submission_with_email_selected:
  "case latest_with_email (submissions_table db) of
     None \<Rightarrow>
       (\<forall>r \<in> set (submissions_table db). s_email r = None)
       \<and> generate_sample_report db =
           \<lparr>printed = [''Generating sample PDF report...'', ''No submissions with email found!''],
            pdf = None, died_of = None\<rparr>
   | Some sid \<Rightarrow>
       (\<exists>r \<in> set (submissions_table db).
           s_submission_id r = sid \<and> s_email r \<noteq> None
           \<and> (\<forall>r' \<in> set (submissions_table db).
                 s_email r' \<noteq> None \<longrightarrow> created_key r' \<le> created_key r))
       \<and> (case pdf (generate_sample_report db) of
             None \<Rightarrow> died_of (generate_sample_report db) \<noteq> None
           | Some (filename, story) \<Rightarrow> filename = ''stability_report_'' @ sid @ ''.pdf'')"
proof (cases "latest_with_email (submissions_table db)")
  case None
  then have "\<forall>r \<in> set (submissions_table db). s_email r = None"
    by (simp add: latest_with_email_none)
  with None show ?thesis
    by (simp add: generate_sample_report_def)
next
  case (Some sid)
  from latest_with_email_some [OF Some] report_for_selected [OF Some] Some
  show ?thesis
    by simp
qed

text \<open>
  Carol's submission is the latest but has no email: of the three, Bob's is selected;
  of Ann's and Carol's, Ann's, and the file carries her ID; Carol's alone gives the
  message and no file.
\<close>

theorem latest_submission_with_email_selected_witness:
  "latest_with_email (submissions_table (report_sample [ann, bob, carol]))
     = Some (s_submission_id bob)
   \<and> (\<exists>r \<in> set [ann, bob, carol].
         s_submission_id r = s_submission_id bob \<and> s_email r \<noteq> None
         \<and> (\<forall>r' \<in> set [ann, bob, carol].
               s_email r' \<noteq> None \<longrightarrow> created_key r' \<le> created_key r))
   \<and> map_option fst (pdf (generate_sample_report (report_sample [ann, carol])))
       = Some ''stability_report_3FA85F64-5717-4562-B3FC-2C963F66AFA6.pdf''
   \<and> generate_sample_report (report_sample [carol]) =
        \<lparr>printed = [''Generating sample PDF report...'', ''No submissions with email found!''],
         pdf = None, died_of = None\<rparr>"
proof -
  have bob: "latest_with_email (submissions_table (report_sample [ann, bob, carol]))
               = Some (s_submission_id bob)"
    by code_simp
  have subs: "submissions_table (report_sample [ann, bob, carol]) = [ann, bob, carol]"
    by (simp add: report_sample_def)
  have none: "latest_with_email (submissions_table (report_sample [carol])) = None"
    by code_simp
  have named: "map_option fst (pdf (generate_sample_report (report_sample [ann, carol])))
       = Some ''stability_report_3FA85F64-5717-4562-B3FC-2C963F66AFA6.pdf''"
    by code_simp
  from latest_submission_with_email_selected [of "report_sample [ann, bob, carol]"] bob subs
  have 1: "\<exists>r \<in> set [ann, bob, carol].
         s_submission_id r = s_submission_id bob \<and> s_email r \<noteq> None
         \<and> (\<forall>r' \<in> set [ann, bob, carol].
               s_email r' \<noteq> None \<longrightarrow> created_key r' \<le> created_key r)"
    by (simp del: set_simps)
  from latest_submission_with_email_selected [of "report_sample [carol]"] none
  have 2: "generate_sample_report (report_sample [carol]) =
        \<lparr>printed = [''Generating sample PDF report...'', ''No submissions with email found!''],
         pdf = None, died_of = None\<rparr>"
    by simp
  from bob 1 2 named show ?thesis
    by (intro conjI)
qed

subsection \<open>Claim C7: placeholders in the user table\<close>

lemma py_or_nonempty:
  "alt \<noteq> [] \<Longrightarrow> py_or x alt \<noteq> []"
  by (simp add: py_or_def split: option.split)

lemma strftime_date_nonempty:
  "strftime_date t \<noteq> []"
  by (simp add: strftime_date_def)

text \<open>
  Claim C7, as the code has it. For a fetched row with a creation timestamp, the user
  table is assembled without an exception and none of its cells is empty. The cells of
  region, age range and email are the placeholder \<^verbatim>\<open>N/A\<close> when the field is NULL. The
  name cell is the first name, or \<^verbatim>\<open>N/A\<close> when that is NULL, then a blank, then the last
  name, or nothing when that is NULL: a missing last name gets no placeholder.
\<close>

theorem user_table_placeholders:
  assumes "created_at submission = Some t"
  shows "\<exists>first last email_cell region_cell age_cell.
           user_data submission =
             Inr [[''Name:'', first @ '' '' @ last],
                  [''Email:'', email_cell],
                  [''Submission Date:'', strftime_date t],
                  [''Region:'', region_cell],
                  [''Age Range:'', age_cell]]
           \<and> (first_name submission = None \<longrightarrow> first = ''N/A'')
           \<and> (last_name submission = None \<longrightarrow> last = '''')
           \<and> (email submission = None \<longrightarrow> email_cell = ''N/A'')
           \<and> (region_name submission = None \<longrightarrow> region_cell = ''N/A'')
           \<and> (age_range_label submission = None \<longrightarrow> age_cell = ''N/A'')
           \<and> (\<forall>v. first_name submission = Some v \<longrightarrow> first = (if v = [] then ''N/A'' else v))
           \<and> (\<forall>v. last_name submission = Some v \<longrightarrow> last = v)
           \<and> (\<forall>v. email submission = Some v \<longrightarrow> email_cell = (if v = [] then ''N/A'' else v))
           \<and> (\<forall>v. region_name submission = Some v
                  \<longrightarrow> region_cell = (if v = [] then ''N/A'' else v))
           \<and> (\<forall>v. age_range_label submission = Some v
                  \<longrightarrow> age_cell = (if v = [] then ''N/A'' else v))
           \<and> first \<noteq> [] \<and> email_cell \<noteq> [] \<and> region_cell \<noteq> [] \<and> age_cell \<noteq> []
           \<and> strftime_date t \<noteq> []"
proof (intro exI conjI)
  show "user_data submission =
          Inr [[''Name:'',
                py_or (first_name submission) ''N/A'' @ '' '' @ py_or (last_name submission) ''''],
               [''Email:'', py_or (email submission) ''N/A''],
               [''Submission Date:'', strftime_date t],
               [''Region:'', py_or (region_name submission) ''N/A''],
               [''Age Range:'', py_or (age_range_label submission) ''N/A'']]"
    using assms by (simp add: user_data_def)
qed (simp_all add: py_or_def strftime_date_nonempty split: option.split)

text \<open>
  The claim as the specification words it fails for the last name: Ann's is NULL, and
  her name cell reads \<^verbatim>\<open>Ann\<close> and a blank, without placeholder.
\<close>

theorem null_last_name_renders_nothing:
  "s_last_name ann = None
   \<and> generate_sample_report (report_sample [ann, carol]) =
       \<lparr>printed =
          [''Generating sample PDF report...'',
           ''PDF report generated: stability_report_3FA85F64-5717-4562-B3FC-2C963F66AFA6.pdf''],
        pdf =
          Some (''stability_report_3FA85F64-5717-4562-B3FC-2C963F66AFA6.pdf'',
                [Paragraph ''STABILITY EVALUATION REPORT'' ''Heading1'',
                 Spacer 1 20,
                 Table [[''Name:'', ''Ann ''],
                        [''Email:'', ''a@b.com''],
                        [''Submission Date:'', ''2024-01-15''],
                        [''Region:'', ''N/A''],
                        [''Age Range:'', ''N/A'']]
                       [100, 400],
                 Spacer 1 20,
                 Paragraph ''Indicator Scores'' ''Heading2'',
                 Table [[''Indicator'', ''Score''],
                        [''Economic Management'', ''3''],
                        [''Social Policy'', ''1''],
                        [''Instability Ratio'', ''0.42'']]
                       [350, 150]]),
        died_of = None\<rparr>"
  by code_simp

theorem user_table_placeholders_witness:
  "map_option created_at (fetch_submission (report_sample [ann])
       ''3FA85F64-5717-4562-B3FC-2C963F66AFA6'')
     = Some (s_created_at ann)
   \<and> map_option user_data (fetch_submission (report_sample [ann])
         ''3FA85F64-5717-4562-B3FC-2C963F66AFA6'')
     = Some (Inr [[''Name:'', ''Ann ''],
                  [''Email:'', ''a@b.com''],
                  [''Submission Date:'', ''2024-01-15''],
                  [''Region:'', ''N/A''],
                  [''Age Range:'', ''N/A'']])"
proof -
  let ?t = "\<lparr>year = 2024, month = 1, day = 15, hour = 10, minute = 0, second = 0,
             microsecond = 0, tzinfo = None\<rparr>"
  let ?row = "\<lparr>submission_id = ''3FA85F64-5717-4562-B3FC-2C963F66AFA6'',
               created_at = Some ?t, instability_ratio = Some (21 / 50),
               first_name = Some ''Ann'', last_name = None, email = Some ''a@b.com'',
               age_range_label = None, region_name = None\<rparr>"
  have fetched: "fetch_submission (report_sample [ann]) ''3FA85F64-5717-4562-B3FC-2C963F66AFA6''
                   = Some ?row"
    by code_simp
  have ts: "created_at ?row = Some ?t"
    by simp
  have ann: "s_created_at ann = Some ?t"
    by (simp add: ann_def)
  have date: "strftime_date ?t = ''2024-01-15''"
    by code_simp
  from user_table_placeholders [OF ts] date
  have "user_data ?row =
             Inr [[''Name:'', ''Ann ''],
                  [''Email:'', ''a@b.com''],
                  [''Submission Date:'', ''2024-01-15''],
                  [''Region:'', ''N/A''],
                  [''Age Range:'', ''N/A'']]"
    by (elim exE conjE) simp
  with fetched ann show ?thesis
    by simp
qed

subsection \<open>Claim C10: a NULL instability ratio\<close>

text \<open>
  Claim C10. When the row fetched for the selected submission has a NULL instability
  ratio, the last row of the scores table cannot be formatted: \<open>score_data\<close> raises
  \<^verbatim>\<open>TypeError\<close> whatever the scores are. The run prints its first line only, writes no
  file and dies of that exception (of the \<^verbatim>\<open>AttributeError\<close> of \<^verbatim>\<open>strftime\<close>, raised
  earlier, when the creation timestamp is NULL too); no placeholder is rendered.
\<close>

theorem null_ratio_crashes_report:
  assumes "latest_with_email (submissions_table db) = Some sid"
    and "fetch_submission db sid = Some submission"
    and "instability_ratio submission = None"
  shows "score_data submission scores = Inl TypeError
         \<and> pdf (generate_sample_report db) = None
         \<and> printed (generate_sample_report db) = [''Generating sample PDF report...'']
         \<and> died_of (generate_sample_report db)
            = Some (if created_at submission = None then AttributeError else TypeError)"
  using assms
  by (auto simp: generate_sample_report_def score_data_def user_data_def Let_def
      split: option.splits)

text \<open>Bob's ratio is NULL and his submission is the one selected: no report.\<close>

theorem null_ratio_crashes_report_witness:
  "latest_with_email (submissions_table (report_sample [ann, bob, carol]))
     = Some ''00000000-0000-0000-0000-000000000002''
   \<and> map_option instability_ratio
       (fetch_submission (report_sample [ann, bob, carol]) ''00000000-0000-0000-0000-000000000002'')
     = Some None
   \<and> generate_sample_report (report_sample [ann, bob, carol])
     = \<lparr>printed = [''Generating sample PDF report...''], pdf = None, died_of = Some TypeError\<rparr>"
proof -
  let ?db = "report_sample [ann, bob, carol]"
  let ?sid = "''00000000-0000-0000-0000-000000000002''"
  let ?row = "\<lparr>submission_id = ?sid,
               created_at = Some \<lparr>year = 2024, month = 2, day = 1, hour = 8, minute = 30,
                                   second = 0, microsecond = 0, tzinfo = None\<rparr>,
               instability_ratio = None,
               first_name = Some ''Bob'', last_name = Some ''Stone'',
               email = Some ''bob@example.org'',
               age_range_label = Some ''25-34'', region_name = Some ''North''\<rparr>"
  have selected: "latest_with_email (submissions_table ?db) = Some ?sid"
    by code_simp
  have fetched: "fetch_submission ?db ?sid = Some ?row"
    by code_simp
  have null: "instability_ratio ?row = None"
    by simp
  from null_ratio_crashes_report [OF selected fetched null, of "[]"]
  have "pdf (generate_sample_report ?db) = None
        \<and> printed (generate_sample_report ?db) = [''Generating sample PDF report...'']
        \<and> died_of (generate_sample_report ?db) = Some TypeError"
    by simp
  then have "generate_sample_report ?db
     = \<lparr>printed = [''Generating sample PDF report...''], pdf = None, died_of = Some TypeError\<rparr>"
    by (cases "generate_sample_report ?db") simp
  with selected fetched show ?thesis
    by simp
qed

end
